theory Spec2Isabelle
  imports Main "HOL-Library.Monad_Syntax"
begin

section \<open>Python values\<close>

text \<open>
  The backend is Python. The values that travel through the result envelope and the
  storage layer are modelled by one type of dynamically typed values. A
  \<^verbatim>\<open>datetime.date\<close> carries year, month and day; a
  \<^verbatim>\<open>datetime.datetime\<close> carries the wall-clock fields and a
  \<^verbatim>\<open>tzinfo\<close>, which is the UTC offset in minutes of an aware datetime
  and \<open>None\<close> for a naive one. Integers are Python's unbounded integers.
\<close>

datatype date = Date (year: int) (month: int) (day: int)

datatype datetime =
  DateTime (dt_year: int) (dt_month: int) (dt_day: int)
    (hour: int) (minute: int) (second: int) (microsecond: int) (tzinfo: "int option")

text \<open>The four pydantic models of \<^verbatim>\<open>models/\<close>, field by field.\<close>

record Bcba =
  id :: "int option"
  name :: string

record Clinic =
  id :: "int option"
  name :: string
  address :: "string option"

record Patient =
  id :: "int option"
  first_name :: string
  last_name :: string
  DOB :: date
  ICD :: "string option"
  address :: "string option"

record SessionNote =
  id :: "int option"
  bcba :: int
  patient :: int
  clinic :: "int option"
  apt_date :: datetime
  duration :: "int option"
  "notes" :: "string option"

datatype model =
  BcbaM Bcba | ClinicM Clinic | PatientM Patient | SessionNoteM SessionNote

datatype pyval =
  PyNone
  | PyBool bool
  | PyInt int
  | PyStr string
  | PyDate date
  | PyDateTime datetime
  | PyModel model
  | PyList "pyval list"
  | PyDict "(string \<times> pyval) list"

type_synonym pydict = "(string \<times> pyval) list"

section \<open>The result envelope (utils/result.py)\<close>

record Result =
  success :: bool
  data :: pyval
  error :: "string option"
  status_code :: int

text \<open>
  \<^verbatim>\<open>Result.__init__(success, data=None, error=None, status_code=None)\<close>.
  The status code is \<^verbatim>\<open>status_code or (200 if success else 500)\<close>: the default
  replaces \<^verbatim>\<open>None\<close> and also the falsy integer 0.
\<close>

definition Result_init :: "bool \<Rightarrow> pyval \<Rightarrow> string option \<Rightarrow> int option \<Rightarrow> Result" where
  "Result_init s d e c =
     \<lparr> success = s,
       data = (if s then d else PyNone),
       error = (if \<not> s then e else None),
       status_code =
         (case c of
            Some n \<Rightarrow> if n \<noteq> 0 then n else (if s then 200 else 500)
          | None \<Rightarrow> (if s then 200 else 500)) \<rparr>"

text \<open>
  \<^verbatim>\<open>success_result(cls, data=None)\<close>: an omitted payload is \<^verbatim>\<open>None\<close>.
\<close>

definition success_result :: "pyval \<Rightarrow> Result" where
  "success_result d = Result_init True d None None"

text \<open>
  \<^verbatim>\<open>error_result(cls, error, status_code=400)\<close>. The second argument is
  \<open>None\<close> when the caller omits it, and then the parameter's default 400 is passed on.
\<close>

definition error_result :: "string \<Rightarrow> int option \<Rightarrow> Result" where
  "error_result e c =
     Result_init False PyNone (Some e) (Some (case c of None \<Rightarrow> 400 | Some n \<Rightarrow> n))"

text \<open>
  \<^verbatim>\<open>to_dict\<close> builds a dict keyed by the values of the \<^verbatim>\<open>Payload\<close>
  enumeration; a Python dict keeps insertion order, so it is an association list.
\<close>

definition to_dict :: "Result \<Rightarrow> pydict" where
  "to_dict r =
     [(''success'', PyBool (success r)), (''status_code'', PyInt (status_code r))]
     @ (if success r then [(''data'', data r)]
        else [(''error'', (case error r of None \<Rightarrow> PyNone | Some m \<Rightarrow> PyStr m))])"

definition to_response :: "Result \<Rightarrow> pydict" where
  "to_response r =
     (if success r then [(''data'', data r)]
      else [(''error'', (case error r of None \<Rightarrow> PyNone | Some m \<Rightarrow> PyStr m))])"

definition keys :: "pydict \<Rightarrow> string list" where
  "keys d = map fst d"

section \<open>Text formatting\<close>

text \<open>
  \<^verbatim>\<open>str(n)\<close> of an integer, as the f-strings of the error messages use it.
\<close>

definition digit :: "nat \<Rightarrow> char" where
  "digit n = ''0123456789'' ! (n mod 10)"

function str_nat :: "nat \<Rightarrow> string" where
  "str_nat n = (if n < 10 then [digit n] else str_nat (n div 10) @ [digit n])"
  by pat_completeness auto
termination
  by (relation "measure (\<lambda>n. n)") auto

declare str_nat.simps [simp del]

definition str_int :: "int \<Rightarrow> string" where
  "str_int i = (if i < 0 then ''-'' @ str_nat (nat (- i)) else str_nat (nat i))"

text \<open>
  \<^verbatim>\<open>isoformat()\<close> of dates and datetimes: zero-padded fields, the fraction
  only when the microsecond is not 0, the UTC offset only when the datetime is aware.
  The fields of a Python date or datetime are never negative; the types here do not
  enforce their ranges.
\<close>

definition zfill :: "nat \<Rightarrow> string \<Rightarrow> string" where
  "zfill w s = replicate (w - length s) (CHR ''0'') @ s"

definition date_isoformat :: "date \<Rightarrow> string" where
  "date_isoformat d =
     zfill 4 (str_int (year d)) @ ''-'' @ zfill 2 (str_int (month d)) @ ''-''
     @ zfill 2 (str_int (day d))"

definition utcoffset_str :: "int \<Rightarrow> string" where
  "utcoffset_str off =
     (if off < 0 then ''-'' else ''+'')
     @ zfill 2 (str_int (\<bar>off\<bar> div 60)) @ '':'' @ zfill 2 (str_int (\<bar>off\<bar> mod 60))"

definition datetime_isoformat :: "string \<Rightarrow> datetime \<Rightarrow> string" where
  "datetime_isoformat sep t =
     zfill 4 (str_int (dt_year t)) @ ''-'' @ zfill 2 (str_int (dt_month t)) @ ''-''
     @ zfill 2 (str_int (dt_day t)) @ sep
     @ zfill 2 (str_int (hour t)) @ '':'' @ zfill 2 (str_int (minute t)) @ '':''
     @ zfill 2 (str_int (second t))
     @ (if microsecond t \<noteq> 0 then ''.'' @ zfill 6 (str_int (microsecond t)) else [])
     @ (case tzinfo t of None \<Rightarrow> [] | Some off \<Rightarrow> utcoffset_str off)"

text \<open>
  Truthiness, and \<^verbatim>\<open>str(v)\<close> as an f-string renders a value. Only the values a
  database row can hold are rendered; a model, a list or a dict is never formatted by
  the code and renders as its type name here.
\<close>

fun truthy :: "pyval \<Rightarrow> bool" where
  "truthy PyNone = False"
| "truthy (PyBool b) = b"
| "truthy (PyInt i) = (i \<noteq> 0)"
| "truthy (PyStr s) = (s \<noteq> [])"
| "truthy (PyList xs) = (xs \<noteq> [])"
| "truthy (PyDict kvs) = (kvs \<noteq> [])"
| "truthy _ = True"

fun py_str :: "pyval \<Rightarrow> string" where
  "py_str PyNone = ''None''"
| "py_str (PyBool b) = (if b then ''True'' else ''False'')"
| "py_str (PyInt i) = str_int i"
| "py_str (PyStr s) = s"
| "py_str (PyDate d) = date_isoformat d"
| "py_str (PyDateTime t) = datetime_isoformat '' '' t"
| "py_str (PyModel m) = ''model''"
| "py_str (PyList xs) = ''list''"
| "py_str (PyDict kvs) = ''dict''"

section \<open>The pydantic models (models/)\<close>

datatype model_class = BcbaC | ClinicC | PatientC | SessionNoteC

fun class_of :: "model \<Rightarrow> model_class" where
  "class_of (BcbaM b) = BcbaC"
| "class_of (ClinicM c) = ClinicC"
| "class_of (PatientM p) = PatientC"
| "class_of (SessionNoteM n) = SessionNoteC"

definition opt :: "('a \<Rightarrow> pyval) \<Rightarrow> 'a option \<Rightarrow> pyval" where
  "opt f x = (case x of None \<Rightarrow> PyNone | Some v \<Rightarrow> f v)"

text \<open>\<^verbatim>\<open>model_dump()\<close>: every field in declaration order, \<^verbatim>\<open>None\<close> included.\<close>

fun model_dump :: "model \<Rightarrow> pydict" where
  "model_dump (BcbaM b) =
     [(''id'', opt PyInt (Bcba.id b)), (''name'', PyStr (Bcba.name b))]"
| "model_dump (ClinicM c) =
     [(''id'', opt PyInt (Clinic.id c)), (''name'', PyStr (Clinic.name c)),
      (''address'', opt PyStr (Clinic.address c))]"
| "model_dump (PatientM p) =
     [(''id'', opt PyInt (Patient.id p)), (''first_name'', PyStr (first_name p)),
      (''last_name'', PyStr (last_name p)), (''DOB'', PyDate (DOB p)),
      (''ICD'', opt PyStr (ICD p)), (''address'', opt PyStr (Patient.address p))]"
| "model_dump (SessionNoteM n) =
     [(''id'', opt PyInt (SessionNote.id n)), (''bcba'', PyInt (bcba n)),
      (''patient'', PyInt (patient n)), (''clinic'', opt PyInt (clinic n)),
      (''apt_date'', PyDateTime (apt_date n)), (''duration'', opt PyInt (duration n)),
      (''notes'', opt PyStr (notes n))]"

text \<open>
  \<^verbatim>\<open>model_class.model_validate(data)\<close>. A required field must be present with a
  value of its type; an optional field may be absent or \<^verbatim>\<open>None\<close>; keys that are
  not fields are ignored. \<open>None\<close> stands for pydantic's ValidationError. Pydantic's
  lax coercions (a digit string for an integer field and the like) are not modelled:
  a value of another Python type is rejected.
\<close>

definition req_int :: "pydict \<Rightarrow> string \<Rightarrow> int option" where
  "req_int d k = (case map_of d k of Some (PyInt i) \<Rightarrow> Some i | _ \<Rightarrow> None)"

definition req_str :: "pydict \<Rightarrow> string \<Rightarrow> string option" where
  "req_str d k = (case map_of d k of Some (PyStr s) \<Rightarrow> Some s | _ \<Rightarrow> None)"

definition req_date :: "pydict \<Rightarrow> string \<Rightarrow> date option" where
  "req_date d k = (case map_of d k of Some (PyDate x) \<Rightarrow> Some x | _ \<Rightarrow> None)"

definition req_datetime :: "pydict \<Rightarrow> string \<Rightarrow> datetime option" where
  "req_datetime d k = (case map_of d k of Some (PyDateTime x) \<Rightarrow> Some x | _ \<Rightarrow> None)"

definition opt_int :: "pydict \<Rightarrow> string \<Rightarrow> int option option" where
  "opt_int d k =
     (case map_of d k of
        None \<Rightarrow> Some None
      | Some PyNone \<Rightarrow> Some None
      | Some (PyInt i) \<Rightarrow> Some (Some i)
      | _ \<Rightarrow> None)"

definition opt_str :: "pydict \<Rightarrow> string \<Rightarrow> string option option" where
  "opt_str d k =
     (case map_of d k of
        None \<Rightarrow> Some None
      | Some PyNone \<Rightarrow> Some None
      | Some (PyStr s) \<Rightarrow> Some (Some s)
      | _ \<Rightarrow> None)"

fun model_validate :: "model_class \<Rightarrow> pydict \<Rightarrow> model option" where
  "model_validate BcbaC d =
     do { i \<leftarrow> opt_int d ''id''; n \<leftarrow> req_str d ''name'';
          Some (BcbaM \<lparr> Bcba.id = i, name = n \<rparr>) }"
| "model_validate ClinicC d =
     do { i \<leftarrow> opt_int d ''id''; n \<leftarrow> req_str d ''name''; a \<leftarrow> opt_str d ''address'';
          Some (ClinicM \<lparr> Clinic.id = i, name = n, address = a \<rparr>) }"
| "model_validate PatientC d =
     do { i \<leftarrow> opt_int d ''id''; f \<leftarrow> req_str d ''first_name'';
          l \<leftarrow> req_str d ''last_name''; b \<leftarrow> req_date d ''DOB'';
          c \<leftarrow> opt_str d ''ICD''; a \<leftarrow> opt_str d ''address'';
          Some (PatientM \<lparr> Patient.id = i, first_name = f, last_name = l, DOB = b,
                           ICD = c, address = a \<rparr>) }"
| "model_validate SessionNoteC d =
     do { i \<leftarrow> opt_int d ''id''; b \<leftarrow> req_int d ''bcba''; p \<leftarrow> req_int d ''patient'';
          c \<leftarrow> opt_int d ''clinic''; t \<leftarrow> req_datetime d ''apt_date'';
          u \<leftarrow> opt_int d ''duration''; n \<leftarrow> opt_str d ''notes'';
          Some (SessionNoteM \<lparr> SessionNote.id = i, bcba = b, patient = p, clinic = c,
                               apt_date = t, duration = u, notes = n \<rparr>) }"

section \<open>The storage layer (database.py and the SQLAlchemy statements)\<close>

text \<open>
  \<^verbatim>\<open>database.py\<close> declares four tables, each with an integer primary key
  \<^verbatim>\<open>id\<close>. \<open>columns\<close> lists the other columns of a table in declaration order,
  each with its \<^verbatim>\<open>nullable\<close> flag.
\<close>

datatype table_name = bcbas | patients | clinics | session_notes

fun columns :: "table_name \<Rightarrow> (string \<times> bool) list" where
  "columns bcbas = [(''name'', False)]"
| "columns patients =
     [(''first_name'', False), (''last_name'', False), (''DOB'', False), (''ICD'', True),
      (''address'', True)]"
| "columns clinics = [(''name'', False), (''address'', True)]"
| "columns session_notes =
     [(''bcba'', False), (''patient'', False), (''clinic'', True), (''apt_date'', False),
      (''duration'', True), (''notes'', True)]"

text \<open>
  The engine is SQLite behind SQLAlchemy Core; neither is code of the repository, so
  the statements the repository builds are given their SQL meaning here. A stored row
  is its rowid and a cell for every column name (\<open>PyNone\<close> is SQL NULL); a table is
  the list of its rows in storage order. The database also records every statement
  handed to \<^verbatim>\<open>conn.execute\<close>, oldest first, so that which queries an
  operation ran, and in which order, can be stated.

  What is left out: faults of the engine that do not depend on the statement (I/O
  errors, a locked file), the 64-bit range of SQLite integers, and statements that
  assign the \<^verbatim>\<open>id\<close> column, which the repository never builds
  (\<^verbatim>\<open>_model_to_dict\<close> excludes the field) and which are refused here like
  any other name that is not a column of \<open>columns\<close>. The declared foreign
  keys are not checked: SQLite enforces them only on a connection that switches them
  on, which this code never does.
\<close>

type_synonym row = "string \<Rightarrow> pyval"

datatype whereclause = Everything | WhereEq string int

datatype stmt =
  Select table_name whereclause
  | SelectDetails whereclause
  | Insert table_name pydict
  | Update table_name int pydict
  | Delete table_name int

record database =
  tables :: "table_name \<Rightarrow> (int \<times> row) list"
  executed :: "stmt list"

datatype exn = ValidationError | CompileError | IntegrityError | AttributeError

text \<open>
  \<^verbatim>\<open>str(e)\<close> of a caught exception. The libraries' message texts are not
  reproduced; the class name stands for them.
\<close>

fun str_exn :: "exn \<Rightarrow> string" where
  "str_exn ValidationError = ''ValidationError''"
| "str_exn CompileError = ''CompileError''"
| "str_exn IntegrityError = ''IntegrityError''"
| "str_exn AttributeError = ''AttributeError''"

definition rowids :: "database \<Rightarrow> table_name \<Rightarrow> int list" where
  "rowids db tn = map fst (tables db tn)"

definition sent :: "stmt \<Rightarrow> database \<Rightarrow> database" where
  "sent st db = db \<lparr> executed := executed db @ [st] \<rparr>"

text \<open>
  What a bound value reads back as. SQLAlchemy's SQLite \<^verbatim>\<open>DateTime\<close> type
  writes the wall-clock fields as text and reads them back as a naive datetime: the
  \<^verbatim>\<open>tzinfo\<close> is dropped and the fields are not shifted (the tests compare
  \<^verbatim>\<open>apt_date.replace(tzinfo=timezone.utc)\<close> for this reason, "since SQLite
  stores naive datetimes"). Every other value reads back as it was written.
\<close>

fun stored :: "pyval \<Rightarrow> pyval" where
  "stored (PyDateTime (DateTime y mo d h mi s us tz)) =
     PyDateTime (DateTime y mo d h mi s us None)"
| "stored v = v"

text \<open>\<^verbatim>\<open>dict(row._mapping)\<close> of a fetched row: the id, then the other columns.\<close>

definition row_mapping :: "table_name \<Rightarrow> int \<times> row \<Rightarrow> pydict" where
  "row_mapping tn ir = (''id'', PyInt (fst ir)) # map (\<lambda>c. (fst c, snd ir (fst c))) (columns tn)"

text \<open>
  A column read from a fetched row (\<^verbatim>\<open>row.clinic\<close>), and the SQL comparison
  \<^verbatim>\<open>column == value\<close>, which NULL never satisfies.
\<close>

definition col :: "pydict \<Rightarrow> string \<Rightarrow> pyval" where
  "col d c = (case map_of d c of Some v \<Rightarrow> v | None \<Rightarrow> PyNone)"

definition sql_eq :: "pyval \<Rightarrow> pyval \<Rightarrow> bool" where
  "sql_eq a b = (a \<noteq> PyNone \<and> b \<noteq> PyNone \<and> a = b)"

fun holds :: "whereclause \<Rightarrow> pydict \<Rightarrow> bool" where
  "holds Everything d = True"
| "holds (WhereEq c v) d = sql_eq (col d c) (PyInt v)"

text \<open>\<^verbatim>\<open>select(table).where(...)\<close>, and its execution.\<close>

definition select_rows :: "database \<Rightarrow> table_name \<Rightarrow> whereclause \<Rightarrow> pydict list" where
  "select_rows db tn w = filter (holds w) (map (row_mapping tn) (tables db tn))"

definition execute_select ::
  "table_name \<Rightarrow> whereclause \<Rightarrow> database \<Rightarrow> pydict list \<times> database" where
  "execute_select tn w db = (select_rows db tn w, sent (Select tn w) db)"

definition fetchone :: "pydict list \<Rightarrow> pydict option" where
  "fetchone rs = (case rs of [] \<Rightarrow> None | r # _ \<Rightarrow> Some r)"

text \<open>
  The rowid SQLite gives an inserted row. SQLAlchemy renders
  \<^verbatim>\<open>Column('id', Integer, primary_key=True, autoincrement=True)\<close> for SQLite as
  \<^verbatim>\<open>id INTEGER NOT NULL, PRIMARY KEY (id)\<close>; the AUTOINCREMENT keyword is
  rendered only for a table declared with \<^verbatim>\<open>sqlite_autoincrement=True\<close>,
  which \<^verbatim>\<open>database.py\<close> does not use. Such a column is an alias of the rowid,
  and an insert that names no rowid gets 1 in an empty table and otherwise one more than
  the largest rowid then in the table.
\<close>

fun max_rowid :: "(int \<times> row) list \<Rightarrow> int" where
  "max_rowid [] = 0"
| "max_rowid [r] = fst r"
| "max_rowid (r # rs) = max (fst r) (max_rowid rs)"

definition next_rowid :: "(int \<times> row) list \<Rightarrow> int" where
  "next_rowid rs = (if rs = [] then 1 else max_rowid rs + 1)"

text \<open>
  \<^verbatim>\<open>insert(table).values(**data)\<close>. A key that is not a column is a
  CompileError (unconsumed column names); a column that is not nullable and gets no
  value is an IntegrityError; otherwise a row is added, the columns without a value
  being NULL, and \<^verbatim>\<open>inserted_primary_key[0]\<close> is its rowid.
\<close>

definition unconsumed :: "table_name \<Rightarrow> pydict \<Rightarrow> bool" where
  "unconsumed tn vals = list_ex (\<lambda>k. k \<notin> set (map fst (columns tn))) (keys vals)"

definition new_cells :: "pydict \<Rightarrow> row" where
  "new_cells vals = (\<lambda>c. case map_of vals c of Some v \<Rightarrow> stored v | None \<Rightarrow> PyNone)"

definition execute_insert ::
  "table_name \<Rightarrow> pydict \<Rightarrow> database \<Rightarrow> (exn + int) \<times> database" where
  "execute_insert tn vals db =
     (let db' = sent (Insert tn vals) db; rid = next_rowid (tables db tn) in
      if unconsumed tn vals then (Inl CompileError, db')
      else if list_ex (\<lambda>c. \<not> snd c \<and> new_cells vals (fst c) = PyNone) (columns tn)
      then (Inl IntegrityError, db')
      else (Inr rid,
            db' \<lparr> tables := (tables db) (tn := tables db tn @ [(rid, new_cells vals)]) \<rparr>))"



text \<open>\<^verbatim>\<open>delete(table).where(table.c.id == record_id)\<close>.\<close>

definition execute_delete :: "table_name \<Rightarrow> int \<Rightarrow> database \<Rightarrow> database" where
  "execute_delete tn rid db =
     (sent (Delete tn rid) db)
       \<lparr> tables := (tables db) (tn := filter (\<lambda>ir. fst ir \<noteq> rid) (tables db tn)) \<rparr>"

section \<open>The generic repository (sqlite\_repository.py)\<close>

record repository =
  table :: table_name
  model_class :: model_class

text \<open>
  \<^verbatim>\<open>_row_to_model\<close> validates the mapping of a fetched row; its branch for a
  missing row is never reached, since every caller passes a fetched row.
\<close>

definition row_to_model :: "repository \<Rightarrow> pydict \<Rightarrow> exn + model" where
  "row_to_model repo d =
     (case model_validate (model_class repo) d of
        None \<Rightarrow> Inl ValidationError
      | Some m \<Rightarrow> Inr m)"

text \<open>
  \<^verbatim>\<open>_model_to_dict\<close> is
  \<^verbatim>\<open>model.model_dump(exclude={'id'}, exclude_none=True)\<close>.
\<close>

definition model_to_dict :: "model \<Rightarrow> pydict" where
  "model_to_dict m = filter (\<lambda>kv. fst kv \<noteq> ''id'' \<and> snd kv \<noteq> PyNone) (model_dump m)"

definition get_by_id :: "repository \<Rightarrow> int \<Rightarrow> database \<Rightarrow> Result \<times> database" where
  "get_by_id repo record_id db =
     (case execute_select (table repo) (WhereEq ''id'' record_id) db of
        (rs, db') \<Rightarrow>
          (case fetchone rs of
             None \<Rightarrow>
               (error_result (''Record with ID '' @ str_int record_id @ '' not found'')
                  (Some 404), db')
           | Some r \<Rightarrow>
               (case row_to_model repo r of
                  Inl e \<Rightarrow>
                    (error_result (''Error fetching record: '' @ str_exn e) (Some 500), db')
                | Inr m \<Rightarrow> (success_result (PyModel m), db'))))"

fun rows_to_models :: "repository \<Rightarrow> pydict list \<Rightarrow> exn + model list" where
  "rows_to_models repo [] = Inr []"
| "rows_to_models repo (r # rs) =
     (case row_to_model repo r of
        Inl e \<Rightarrow> Inl e
      | Inr m \<Rightarrow> (case rows_to_models repo rs of Inl e \<Rightarrow> Inl e | Inr ms \<Rightarrow> Inr (m # ms)))"

definition get_all :: "repository \<Rightarrow> database \<Rightarrow> Result \<times> database" where
  "get_all repo db =
     (case execute_select (table repo) Everything db of
        (rs, db') \<Rightarrow>
          (case rows_to_models repo rs of
             Inl e \<Rightarrow>
               (error_result (''Error fetching all records: '' @ str_exn e) (Some 500), db')
           | Inr ms \<Rightarrow> (success_result (PyList (map PyModel ms)), db')))"

definition create :: "repository \<Rightarrow> model \<Rightarrow> database \<Rightarrow> Result \<times> database" where
  "create repo m db =
     (case execute_insert (table repo) (model_to_dict m) db of
        (Inl e, db') \<Rightarrow>
          (error_result (''Error creating record: '' @ str_exn e) (Some 500), db')
      | (Inr record_id, db') \<Rightarrow> (success_result (PyInt record_id), db'))"


definition delete :: "repository \<Rightarrow> int \<Rightarrow> database \<Rightarrow> Result \<times> database" where
  "delete repo record_id db =
     (case get_by_id repo record_id db of
        (check_result, db1) \<Rightarrow>
          if \<not> success check_result then (check_result, db1)
          else (success_result PyNone, execute_delete (table repo) record_id db1))"

section \<open>The entity services (services/)\<close>

text \<open>
  Each service is a process-wide singleton that binds the generic repository to its
  table and model class and passes the five operations through to it, so a service
  is identified with its repository.
\<close>

definition BcbaService :: repository where
  "BcbaService = \<lparr> table = bcbas, model_class = BcbaC \<rparr>"

definition PatientService :: repository where
  "PatientService = \<lparr> table = patients, model_class = PatientC \<rparr>"

definition ClinicService :: repository where
  "ClinicService = \<lparr> table = clinics, model_class = ClinicC \<rparr>"

definition SessionNoteService :: repository where
  "SessionNoteService = \<lparr> table = session_notes, model_class = SessionNoteC \<rparr>"

definition services :: "repository list" where
  "services = [BcbaService, PatientService, ClinicService, SessionNoteService]"

subsection \<open>Validated creation of a session note\<close>

text \<open>
  \<^verbatim>\<open>create_with_validation(bcba, patient_id, notes, clinic_id=None, apt_date=None,
  duration=None)\<close>. The reading of the clock, \<^verbatim>\<open>datetime.now(tz=timezone.utc)\<close>,
  is the extra argument \<open>now\<close>. A datetime is always truthy, so
  \<^verbatim>\<open>apt_date or now\<close> takes the clock only when no appointment time is given.
\<close>

definition create_with_validation ::
  "int \<Rightarrow> int \<Rightarrow> string option \<Rightarrow> int option \<Rightarrow> datetime option \<Rightarrow> int option
   \<Rightarrow> datetime \<Rightarrow> database \<Rightarrow> Result \<times> database" where
  "create_with_validation bcba_id patient_id notes_text clinic_id apt dur now db =
     (case get_by_id BcbaService bcba_id db of
        (bcba_result, db1) \<Rightarrow>
          if \<not> success bcba_result
          then (error_result (''BCBA with ID '' @ str_int bcba_id @ '' does not exist'')
                  (Some 400), db1)
          else
            (case get_by_id PatientService patient_id db1 of
               (patient_result, db2) \<Rightarrow>
                 if \<not> success patient_result
                 then (error_result
                         (''Patient with ID '' @ str_int patient_id @ '' does not exist'')
                         (Some 400), db2)
                 else
                   (case
                      (case clinic_id of
                         None \<Rightarrow> (None, db2)
                       | Some c \<Rightarrow>
                           (case get_by_id ClinicService c db2 of
                              (clinic_result, db3) \<Rightarrow>
                                (if \<not> success clinic_result
                                 then Some (error_result
                                   (''Clinic with ID '' @ str_int c @ '' does not exist'')
                                   (Some 400))
                                 else None, db3)))
                    of
                      (Some failure, db3) \<Rightarrow> (failure, db3)
                    | (None, db3) \<Rightarrow>
                        create SessionNoteService
                          (SessionNoteM
                             \<lparr> SessionNote.id = None, bcba = bcba_id, patient = patient_id,
                               clinic = clinic_id,
                               apt_date = (case apt of None \<Rightarrow> now | Some t \<Rightarrow> t),
                               duration = dur, notes = notes_text \<rparr>)
                          db3)))"

subsection \<open>Reads by BCBA and reads with details\<close>


text \<open>
  The joined query of both detailed reads: the session notes, inner-joined to the
  patient and to the BCBA they name, outer-joined to the clinic they name, with the
  four labelled columns appended to the note's own. A note without a matching clinic
  row keeps one result row, whose \<^verbatim>\<open>clinic_name\<close> is NULL.
\<close>

definition clinic_names :: "database \<Rightarrow> pydict \<Rightarrow> pyval list" where
  "clinic_names db n =
     (let cs = [c. c \<leftarrow> select_rows db clinics Everything, sql_eq (col n ''clinic'') (col c ''id'')]
      in if cs = [] then [PyNone] else map (\<lambda>c. col c ''name'') cs)"

definition joined_rows :: "database \<Rightarrow> pydict list" where
  "joined_rows db =
     [n @ [(''patient_first_name'', col p ''first_name''),
           (''patient_last_name'', col p ''last_name''),
           (''clinic_name'', cn),
           (''bcba_name'', col b ''name'')].
        n \<leftarrow> select_rows db session_notes Everything,
        p \<leftarrow> select_rows db patients Everything, sql_eq (col n ''patient'') (col p ''id''),
        cn \<leftarrow> clinic_names db n,
        b \<leftarrow> select_rows db bcbas Everything, sql_eq (col n ''bcba'') (col b ''id'')]"

definition execute_select_details ::
  "whereclause \<Rightarrow> database \<Rightarrow> pydict list \<times> database" where
  "execute_select_details w db = (filter (holds w) (joined_rows db), sent (SelectDetails w) db)"

text \<open>
  The dict built from one joined row. \<^verbatim>\<open>row.apt_date.isoformat()\<close> is called
  when the value is truthy; a truthy value that is neither a datetime nor a date has
  no such method (AttributeError).
\<close>

fun isoformat_or_none :: "pyval \<Rightarrow> exn + pyval" where
  "isoformat_or_none (PyDateTime t) = Inr (PyStr (datetime_isoformat ''T'' t))"
| "isoformat_or_none (PyDate d) = Inr (PyStr (date_isoformat d))"
| "isoformat_or_none v = (if truthy v then Inl AttributeError else Inr PyNone)"

definition note_with_details :: "pydict \<Rightarrow> exn + pydict" where
  "note_with_details r =
     (case isoformat_or_none (col r ''apt_date'') of
        Inl e \<Rightarrow> Inl e
      | Inr apt \<Rightarrow>
          Inr [(''id'', col r ''id''),
               (''bcba'', col r ''bcba''),
               (''patient'', col r ''patient''),
               (''clinic'', col r ''clinic''),
               (''apt_date'', apt),
               (''duration'', col r ''duration''),
               (''notes'', col r ''notes''),
               (''patient_name'',
                  PyStr (py_str (col r ''patient_first_name'') @ '' ''
                         @ py_str (col r ''patient_last_name''))),
               (''clinic_name'',
                  (if truthy (col r ''clinic_name'') then col r ''clinic_name''
                   else PyStr ''No Clinic'')),
               (''bcba_name'', col r ''bcba_name'')])"

fun notes_with_details :: "pydict list \<Rightarrow> exn + pydict list" where
  "notes_with_details [] = Inr []"
| "notes_with_details (r # rs) =
     (case note_with_details r of
        Inl e \<Rightarrow> Inl e
      | Inr d \<Rightarrow> (case notes_with_details rs of Inl e \<Rightarrow> Inl e | Inr ds \<Rightarrow> Inr (d # ds)))"

definition get_by_bcba_with_details :: "int \<Rightarrow> database \<Rightarrow> Result \<times> database" where
  "get_by_bcba_with_details bcba_id db =
     (case execute_select_details (WhereEq ''bcba'' bcba_id) db of
        (rs, db') \<Rightarrow>
          (case notes_with_details rs of
             Inl e \<Rightarrow>
               (error_result
                  (''Error fetching session notes with details for BCBA '' @ str_int bcba_id
                   @ '': '' @ str_exn e) (Some 500), db')
           | Inr ds \<Rightarrow> (success_result (PyList (map PyDict ds)), db')))"

definition get_by_id_with_details :: "int \<Rightarrow> database \<Rightarrow> Result \<times> database" where
  "get_by_id_with_details note_id db =
     (case execute_select_details (WhereEq ''id'' note_id) db of
        (rs, db') \<Rightarrow>
          (case fetchone rs of
             None \<Rightarrow>
               (error_result (''Session note with ID '' @ str_int note_id @ '' not found'')
                  (Some 404), db')
           | Some r \<Rightarrow>
               (case note_with_details r of
                  Inl e \<Rightarrow>
                    (error_result
                       (''Error fetching session note with details for ID ''
                        @ str_int note_id @ '': '' @ str_exn e) (Some 500), db')
                | Inr d \<Rightarrow> (success_result (PyDict d), db'))))"

section \<open>Notions used to state the properties\<close>


text \<open>
  The record a created record reads back as: the assigned id, and an appointment time
  without its \<^verbatim>\<open>tzinfo\<close>.
\<close>

fun naive :: "datetime \<Rightarrow> datetime" where
  "naive (DateTime y mo d h mi s us tz) = DateTime y mo d h mi s us None"

fun read_back :: "int \<Rightarrow> model \<Rightarrow> model" where
  "read_back n (BcbaM b) = BcbaM (b \<lparr> Bcba.id := Some n \<rparr>)"
| "read_back n (ClinicM c) = ClinicM (c \<lparr> Clinic.id := Some n \<rparr>)"
| "read_back n (PatientM p) = PatientM (p \<lparr> Patient.id := Some n \<rparr>)"
| "read_back n (SessionNoteM s) =
     SessionNoteM (s \<lparr> SessionNote.id := Some n, apt_date := naive (apt_date s) \<rparr>)"

text \<open>
  A sequence of create and delete operations on the table of one repository, and the
  ids its successful creates return, in order.
\<close>

datatype op = CreateOp model | DeleteOp int

fun is_create :: "op \<Rightarrow> bool" where
  "is_create (CreateOp m) = True"
| "is_create (DeleteOp i) = False"

fun assigned_ids :: "repository \<Rightarrow> op list \<Rightarrow> database \<Rightarrow> int list" where
  "assigned_ids repo [] db = []"
| "assigned_ids repo (CreateOp m # ops) db =
     (case create repo m db of
        (r, db') \<Rightarrow> (case data r of PyInt i \<Rightarrow> [i] | _ \<Rightarrow> []) @ assigned_ids repo ops db')"
| "assigned_ids repo (DeleteOp i # ops) db = assigned_ids repo ops (snd (delete repo i db))"

text \<open>
  A stored session note whose patient and BCBA references name stored rows, and one
  whose appointment time is a datetime (the column is declared not nullable).
\<close>

definition references_resolve :: "database \<Rightarrow> row \<Rightarrow> bool" where
  "references_resolve db r =
     (list_ex (\<lambda>p. r ''patient'' = PyInt (fst p)) (tables db patients)
      \<and> list_ex (\<lambda>b. r ''bcba'' = PyInt (fst b)) (tables db bcbas))"

definition has_apt_date :: "row \<Rightarrow> bool" where
  "has_apt_date r = (case r ''apt_date'' of PyDateTime t \<Rightarrow> True | _ \<Rightarrow> False)"

subsection \<open>Example data\<close>

definition empty_db :: database where
  "empty_db = \<lparr> tables = (\<lambda>tn. []), executed = [] \<rparr>"

definition dr_a :: model where
  "dr_a = BcbaM \<lparr> Bcba.id = None, name = ''Dr. A'' \<rparr>"

definition note_with_timezone :: model where
  "note_with_timezone =
     SessionNoteM
       \<lparr> SessionNote.id = None, bcba = 1, patient = 1, clinic = None,
         apt_date = DateTime 2025 2 1 14 30 0 0 (Some 0), duration = Some 75,
         notes = Some ''x'' \<rparr>"

definition note_without_timezone :: model where
  "note_without_timezone =
     SessionNoteM
       \<lparr> SessionNote.id = None, bcba = 1, patient = 1, clinic = None,
         apt_date = DateTime 2025 2 1 14 30 0 0 None, duration = None,
         notes = Some ''updated'' \<rparr>"

text \<open>
  One BCBA, one patient, one clinic, and two session notes of BCBA 1: note 1 without a
  clinic, note 2 at clinic 1.
\<close>

definition example_note_1 :: "int \<times> row" where
  "example_note_1 =
     (1, new_cells [(''bcba'', PyInt 1), (''patient'', PyInt 1),
                    (''apt_date'', PyDateTime (DateTime 2025 1 1 10 0 0 0 None)),
                    (''duration'', PyInt 60), (''notes'', PyStr ''x'')])"

definition example_note_2 :: "int \<times> row" where
  "example_note_2 =
     (2, new_cells [(''bcba'', PyInt 1), (''patient'', PyInt 1), (''clinic'', PyInt 1),
                    (''apt_date'', PyDateTime (DateTime 2025 1 2 11 0 0 0 None)),
                    (''duration'', PyInt 75)])"

definition example_db :: database where
  "example_db =
     \<lparr> tables = (\<lambda>tn. [])
         (bcbas := [(1, new_cells [(''name'', PyStr ''Dr. A'')])],
          patients :=
            [(1, new_cells [(''first_name'', PyStr ''John''), (''last_name'', PyStr ''Doe''),
                            (''DOB'', PyDate (Date 2015 1 1))])],
          clinics := [(1, new_cells [(''name'', PyStr ''Test ABA Clinic'')])],
          session_notes := [example_note_1, example_note_2]),
       executed = [] \<rparr>"

text \<open>The dicts the detailed reads give for the two notes, and a reading of the clock.\<close>

definition note_1_details :: pydict where
  "note_1_details =
     [(''id'', PyInt 1), (''bcba'', PyInt 1), (''patient'', PyInt 1), (''clinic'', PyNone),
      (''apt_date'', PyStr ''2025-01-01T10:00:00''), (''duration'', PyInt 60),
      (''notes'', PyStr ''x''), (''patient_name'', PyStr ''John Doe''),
      (''clinic_name'', PyStr ''No Clinic''), (''bcba_name'', PyStr ''Dr. A'')]"

definition note_2_details :: pydict where
  "note_2_details =
     [(''id'', PyInt 2), (''bcba'', PyInt 1), (''patient'', PyInt 1), (''clinic'', PyInt 1),
      (''apt_date'', PyStr ''2025-01-02T11:00:00''), (''duration'', PyInt 75),
      (''notes'', PyNone), (''patient_name'', PyStr ''John Doe''),
      (''clinic_name'', PyStr ''Test ABA Clinic''), (''bcba_name'', PyStr ''Dr. A'')]"

definition noon :: datetime where
  "noon = DateTime 2025 6 1 12 0 0 0 (Some 0)"

section \<open>Properties of the result envelope\<close>



text \<open>
  C7: for every Result, \<^verbatim>\<open>to_dict\<close> has the keys \<^verbatim>\<open>success\<close> and
  \<^verbatim>\<open>status_code\<close> and exactly one of \<^verbatim>\<open>data\<close> and
  \<^verbatim>\<open>error\<close>: \<^verbatim>\<open>data\<close> on success, \<^verbatim>\<open>error\<close> on failure.
\<close>

theorem C7_to_dict_keys:
  "keys (to_dict r) =
     (if success r then [''success'', ''status_code'', ''data'']
      else [''success'', ''status_code'', ''error''])
   \<and> ''success'' \<in> set (keys (to_dict r))
   \<and> ''status_code'' \<in> set (keys (to_dict r))
   \<and> (''data'' \<in> set (keys (to_dict r))) = success r
   \<and> (''error'' \<in> set (keys (to_dict r))) = (\<not> success r)"
  by (simp add: to_dict_def keys_def)

text \<open>
  C10: a Result constructed with success has no error, whatever error argument is
  supplied; one constructed with failure has no data, whatever data argument is
  supplied; so no constructed Result carries both a payload and an error message.
\<close>

theorem C10_payload_and_error_exclusive:
  "error (Result_init True d e c) = None
   \<and> data (Result_init False d e c) = PyNone
   \<and> (data (Result_init s d e c) = PyNone \<or> error (Result_init s d e c) = None)"
  by (simp add: Result_init_def)

section \<open>Properties of the storage layer and the repository\<close>

subsection \<open>Selecting by id\<close>

lemma col_row_mapping_id: "col (row_mapping tn ir) ''id'' = PyInt (fst ir)"
  by (simp add: col_def row_mapping_def)

lemma sql_eq_id_row_mapping:
  "sql_eq (col (row_mapping tn ir) ''id'') (PyInt rid) = (fst ir = rid)"
  by (simp add: col_row_mapping_id sql_eq_def)

lemma select_by_id:
  "select_rows db tn (WhereEq ''id'' rid) =
     map (row_mapping tn) (filter (\<lambda>ir. fst ir = rid) (tables db tn))"
  by (simp add: select_rows_def filter_map comp_def sql_eq_id_row_mapping)

lemma select_by_id_absent:
  "rid \<notin> set (rowids db tn) \<Longrightarrow> select_rows db tn (WhereEq ''id'' rid) = []"
  by (auto simp: select_by_id rowids_def filter_empty_conv)

lemma select_rows_sent: "select_rows (sent st db) tn w = select_rows db tn w"
  by (simp add: select_rows_def sent_def)

lemma rowids_sent: "rowids (sent st db) tn = rowids db tn"
  by (simp add: rowids_def sent_def)

lemma snd_get_by_id:
  "snd (get_by_id repo rid db) = sent (Select (table repo) (WhereEq ''id'' rid)) db"
  by (simp add: get_by_id_def execute_select_def split: option.splits sum.splits)

lemma fst_get_by_id_sent: "fst (get_by_id repo rid (sent st db)) = fst (get_by_id repo rid db)"
  by (simp add: get_by_id_def execute_select_def select_rows_sent
      split: option.splits sum.splits)

lemma get_by_id_absent:
  "rid \<notin> set (rowids db (table repo)) \<Longrightarrow>
   get_by_id repo rid db =
     (error_result (''Record with ID '' @ str_int rid @ '' not found'') (Some 404),
      sent (Select (table repo) (WhereEq ''id'' rid)) db)"
  by (simp add: get_by_id_def execute_select_def select_by_id_absent fetchone_def)

lemma success_error_result: "\<not> success (error_result e c)"
  by (simp add: error_result_def Result_init_def)

lemma status_code_error_result: "n \<noteq> 0 \<Longrightarrow> status_code (error_result e (Some n)) = n"
  by (simp add: error_result_def Result_init_def)

subsection \<open>Update and delete of an absent id\<close>



subsection \<open>The ids that create assigns\<close>

lemma max_rowid_ge: "ir \<in> set rs \<Longrightarrow> fst ir \<le> max_rowid rs"
  by (induction rs rule: max_rowid.induct) auto

lemma next_rowid_gt: "i \<in> set (map fst rs) \<Longrightarrow> i < next_rowid rs"
  using max_rowid_ge [of _ rs] by (fastforce simp: next_rowid_def)

lemma create_cases:
  "create repo m db = (r, db') \<Longrightarrow>
     (success r \<and> r = success_result (PyInt (next_rowid (tables db (table repo))))
        \<and> db' = (sent (Insert (table repo) (model_to_dict m)) db)
             \<lparr> tables := (tables db) (table repo := tables db (table repo)
                  @ [(next_rowid (tables db (table repo)), new_cells (model_to_dict m))]) \<rparr>)
   \<or> (\<not> success r \<and> data r = PyNone \<and> db' = sent (Insert (table repo) (model_to_dict m)) db)"
  by (auto simp: create_def execute_insert_def Let_def success_result_def error_result_def
      Result_init_def split: if_splits)

lemma creates_increasing:
  "list_all is_create ops \<Longrightarrow>
     sorted_wrt (<) (assigned_ids repo ops db)
     \<and> (\<forall>i \<in> set (assigned_ids repo ops db). \<forall>j \<in> set (rowids db (table repo)). j < i)"
proof (induction ops arbitrary: db)
  case Nil
  then show ?case by simp
next
  case (Cons x ops)
  then obtain m where x: "x = CreateOp m" by (cases x) auto
  obtain r db' where c: "create repo m db = (r, db')" by (cases "create repo m db")
  from Cons have ih: "sorted_wrt (<) (assigned_ids repo ops db')"
      "\<forall>i \<in> set (assigned_ids repo ops db'). \<forall>j \<in> set (rowids db' (table repo)). j < i"
    by auto
  from create_cases [OF c] show ?case
  proof
    assume a: "success r \<and> r = success_result (PyInt (next_rowid (tables db (table repo))))
        \<and> db' = (sent (Insert (table repo) (model_to_dict m)) db)
             \<lparr> tables := (tables db) (table repo := tables db (table repo)
                  @ [(next_rowid (tables db (table repo)), new_cells (model_to_dict m))]) \<rparr>"
    let ?n = "next_rowid (tables db (table repo))"
    from a have d: "data r = PyInt ?n" by (simp add: success_result_def Result_init_def)
    from a have rows: "rowids db' (table repo) = rowids db (table repo) @ [?n]"
      by (simp add: rowids_def sent_def)
    have gt: "\<forall>j \<in> set (rowids db (table repo)). j < ?n"
      using next_rowid_gt by (auto simp: rowids_def)
    show ?thesis using ih gt by (auto simp: x c d rows)
  next
    assume a: "\<not> success r \<and> data r = PyNone
        \<and> db' = sent (Insert (table repo) (model_to_dict m)) db"
    then show ?thesis using ih by (simp add: x c rowids_sent)
  qed
qed

text \<open>
  C5, as stated: over every sequence of creates and deletes the assigned ids increase
  and none is assigned twice. On an empty table, create, delete of the created record
  and create again assign the id 1 twice.
\<close>

theorem C5_id_reused_after_delete_counterexample:
  "assigned_ids BcbaService [CreateOp dr_a, DeleteOp 1, CreateOp dr_a] empty_db = [1, 1]"
  by (simp add: create_def delete_def get_by_id_def execute_insert_def execute_select_def
      execute_delete_def model_to_dict_def dr_a_def empty_db_def BcbaService_def sent_def
      unconsumed_def keys_def opt_def new_cells_def next_rowid_def success_result_def
      Result_init_def select_rows_def row_mapping_def col_def sql_eq_def fetchone_def
      row_to_model_def opt_int_def req_str_def)

text \<open>
  C5, amended: the id a successful create returns is 1 in an empty table and otherwise
  one more than the greatest id stored in the table at that moment; it is greater than
  every id then stored, so it is the id of no live record, and the ids of a sequence of
  creates with no delete in between increase strictly.
\<close>

theorem C5_new_id_exceeds_stored_ids:
  "(create repo m db = (r, db') \<and> success r \<longrightarrow>
      data r = PyInt (next_rowid (tables db (table repo)))
      \<and> (\<forall>j \<in> set (rowids db (table repo)). j < next_rowid (tables db (table repo)))
      \<and> rowids db' (table repo) =
          rowids db (table repo) @ [next_rowid (tables db (table repo))])
   \<and> (list_all is_create ops \<longrightarrow> sorted_wrt (<) (assigned_ids repo ops db))"
proof -
  have "\<forall>j \<in> set (rowids db (table repo)). j < next_rowid (tables db (table repo))"
    using next_rowid_gt by (auto simp: rowids_def)
  moreover have "create repo m db = (r, db') \<and> success r \<longrightarrow>
      data r = PyInt (next_rowid (tables db (table repo)))
      \<and> rowids db' (table repo) =
          rowids db (table repo) @ [next_rowid (tables db (table repo))]"
    using create_cases [of repo m db r db']
    by (auto simp: success_result_def Result_init_def rowids_def sent_def)
  ultimately show ?thesis using creates_increasing [of ops repo db] by blast
qed

theorem C5_new_id_witness:
  "success (fst (create BcbaService dr_a example_db))
   \<and> data (fst (create BcbaService dr_a example_db)) = PyInt 2
   \<and> rowids (snd (create BcbaService dr_a example_db)) bcbas = [1, 2]
   \<and> list_all is_create [CreateOp dr_a, CreateOp dr_a]
   \<and> sorted_wrt (<) (assigned_ids BcbaService [CreateOp dr_a, CreateOp dr_a] example_db)"
proof -
  have s: "success (fst (create BcbaService dr_a example_db))"
    by (simp add: create_def execute_insert_def BcbaService_def dr_a_def example_db_def
        model_to_dict_def opt_def unconsumed_def keys_def new_cells_def sent_def
        success_result_def Result_init_def Let_def)
  have n: "next_rowid (tables example_db bcbas) = 2"
    by (simp add: next_rowid_def example_db_def)
  have t: "table BcbaService = bcbas" by (simp add: BcbaService_def)
  have r: "rowids example_db bcbas = [1]" by (simp add: rowids_def example_db_def)
  have c: "list_all is_create [CreateOp dr_a, CreateOp dr_a]" by simp
  from C5_new_id_exceeds_stored_ids [of BcbaService dr_a example_db
      "fst (create BcbaService dr_a example_db)" "snd (create BcbaService dr_a example_db)"
      "[CreateOp dr_a, CreateOp dr_a]"] s c
  show ?thesis by (simp add: n t r)
qed

subsection \<open>What a record writes\<close>

lemma map_of_filter_distinct:
  "distinct (map fst xs) \<Longrightarrow>
   map_of (filter P xs) k =
     (case map_of xs k of None \<Rightarrow> None | Some v \<Rightarrow> if P (k, v) then Some v else None)"
proof (induction xs)
  case Nil
  then show ?case by simp
next
  case (Cons x xs)
  then show ?case
    by (cases x) (auto split: option.splits simp: map_of_eq_None_iff image_iff
        dest: map_of_SomeD)
qed

lemma distinct_keys_model_dump: "distinct (map fst (model_dump m))"
  by (cases m) simp_all

lemma map_of_model_to_dict:
  "map_of (model_to_dict m) c =
     (case map_of (model_dump m) c of
        None \<Rightarrow> None
      | Some v \<Rightarrow> if c = ''id'' \<or> v = PyNone then None else Some v)"
  unfolding model_to_dict_def
  by (simp add: map_of_filter_distinct [OF distinct_keys_model_dump] split: option.splits)

lemma new_cells_model_to_dict:
  "new_cells (model_to_dict m) c =
     (if c = ''id'' then PyNone
      else case map_of (model_dump m) c of None \<Rightarrow> PyNone | Some v \<Rightarrow> stored v)"
  by (simp add: new_cells_def map_of_model_to_dict split: option.splits)

lemma the_service:
  "repo \<in> set services \<Longrightarrow> class_of m = model_class repo \<Longrightarrow>
   repo = (case m of BcbaM b \<Rightarrow> BcbaService | ClinicM c \<Rightarrow> ClinicService
           | PatientM p \<Rightarrow> PatientService | SessionNoteM s \<Rightarrow> SessionNoteService)"
  by (cases m)
    (auto simp: services_def BcbaService_def PatientService_def ClinicService_def
      SessionNoteService_def)

lemma validate_inserted:
  assumes "repo \<in> set services" and "class_of m = model_class repo"
  shows "model_validate (model_class repo)
           (row_mapping (table repo) (n, new_cells (model_to_dict m))) = Some (read_back n m)"
proof (cases m)
  case (BcbaM b)
  with the_service [OF assms] have "repo = BcbaService" by simp
  then show ?thesis
    by (simp add: BcbaM BcbaService_def row_mapping_def new_cells_model_to_dict
        opt_int_def req_str_def)
next
  case (ClinicM c)
  with the_service [OF assms] have "repo = ClinicService" by simp
  then show ?thesis
    by (simp add: ClinicM ClinicService_def row_mapping_def new_cells_model_to_dict
        opt_def opt_int_def req_str_def opt_str_def split: option.splits)
next
  case (PatientM p)
  with the_service [OF assms] have "repo = PatientService" by simp
  then show ?thesis
    by (simp add: PatientM PatientService_def row_mapping_def new_cells_model_to_dict
        opt_def opt_int_def req_str_def opt_str_def req_date_def split: option.splits)
next
  case (SessionNoteM s)
  with the_service [OF assms] have r: "repo = SessionNoteService" by simp
  obtain y mo d h mi sec us tz where t: "apt_date s = DateTime y mo d h mi sec us tz"
    by (cases "apt_date s")
  have "s \<lparr> SessionNote.id := Some n, apt_date := DateTime y mo d h mi sec us None \<rparr>
      = \<lparr> SessionNote.id = Some n, bcba = bcba s, patient = patient s, clinic = clinic s,
          apt_date = DateTime y mo d h mi sec us None, duration = duration s,
          notes = notes s \<rparr>"
    by simp
  then show ?thesis
    by (simp add: SessionNoteM r t SessionNoteService_def row_mapping_def
        new_cells_model_to_dict opt_def opt_int_def req_int_def opt_str_def req_datetime_def
        split: option.splits)
qed

lemma stored_datetime: "stored (PyDateTime t) = PyDateTime (naive t)"
  by (cases t) simp

lemma stored_opt_int: "stored (opt PyInt x) = opt PyInt x"
  by (simp add: opt_def split: option.splits)

lemma stored_opt_str: "stored (opt PyStr x) = opt PyStr x"
  by (simp add: opt_def split: option.splits)

lemma not_null_satisfied:
  assumes "repo \<in> set services" and "class_of m = model_class repo"
  shows "\<not> list_ex (\<lambda>c. \<not> snd c \<and> new_cells (model_to_dict m) (fst c) = PyNone)
            (columns (table repo))"
  using the_service [OF assms]
  by (cases m)
    (simp_all add: BcbaService_def ClinicService_def PatientService_def
      SessionNoteService_def new_cells_model_to_dict stored_datetime)

lemma keys_model_to_dict:
  "set (keys (model_to_dict m)) \<subseteq> set (map fst (model_dump m)) - {''id''}"
  by (auto simp: keys_def model_to_dict_def)

lemma consumed:
  assumes "repo \<in> set services" and "class_of m = model_class repo"
  shows "\<not> unconsumed (table repo) (model_to_dict m)"
proof -
  have "set (map fst (model_dump m)) - {''id''} \<subseteq> set (map fst (columns (table repo)))"
    using the_service [OF assms]
    by (cases m)
      (auto simp: BcbaService_def PatientService_def ClinicService_def
         SessionNoteService_def)
  with keys_model_to_dict [of m] show ?thesis
    by (auto simp: unconsumed_def list_ex_iff)
qed

lemma create_succeeds:
  assumes "repo \<in> set services" and "class_of m = model_class repo"
  shows "create repo m db =
     (success_result (PyInt (next_rowid (tables db (table repo)))),
      (sent (Insert (table repo) (model_to_dict m)) db)
        \<lparr> tables := (tables db) (table repo := tables db (table repo)
             @ [(next_rowid (tables db (table repo)), new_cells (model_to_dict m))]) \<rparr>)"
  using consumed [OF assms] not_null_satisfied [OF assms]
  by (simp add: create_def execute_insert_def Let_def)

lemma get_by_id_found:
  assumes "filter (\<lambda>ir. fst ir = rid) (tables db (table repo)) = ir # rest"
    and "model_validate (model_class repo) (row_mapping (table repo) ir) = Some m"
  shows "fst (get_by_id repo rid db) = success_result (PyModel m)"
  using assms
  by (simp add: get_by_id_def execute_select_def select_by_id fetchone_def row_to_model_def)

lemma read_back_id: "map_of (model_dump (read_back n m)) ''id'' = Some (PyInt n)"
  by (cases m) (simp_all add: opt_def)

lemma read_back_fields:
  "k \<noteq> ''id'' \<Longrightarrow>
   map_of (model_dump (read_back n m)) k = map_option stored (map_of (model_dump m) k)"
  by (cases m) (simp_all add: stored_datetime stored_opt_int stored_opt_str)

lemma map_option_fixed:
  "list_all (\<lambda>kv. f (snd kv) = snd kv) d \<Longrightarrow> map_option f (map_of d k) = map_of d k"
  by (induction d) auto

subsection \<open>Round trip of create and get\_by\_id\<close>

text \<open>
  C3, as stated: the record read back equals the input in every field except id. A
  session note whose appointment time is timezone-aware (as the default
  \<^verbatim>\<open>datetime.now(tz=timezone.utc)\<close> of the validated creation is) reads back
  with a naive appointment time, which is a different value.
\<close>

theorem C3_timezone_lost_counterexample:
  "success (fst (create SessionNoteService note_with_timezone example_db))
   \<and> data (fst (create SessionNoteService note_with_timezone example_db)) = PyInt 3
   \<and> fst (get_by_id SessionNoteService 3
             (snd (create SessionNoteService note_with_timezone example_db)))
       = success_result (PyModel (SessionNoteM
           \<lparr> SessionNote.id = Some 3, bcba = 1, patient = 1, clinic = None,
             apt_date = DateTime 2025 2 1 14 30 0 0 None, duration = Some 75,
             notes = Some ''x'' \<rparr>))
   \<and> map_of (model_dump (SessionNoteM
           \<lparr> SessionNote.id = Some 3, bcba = 1, patient = 1, clinic = None,
             apt_date = DateTime 2025 2 1 14 30 0 0 None, duration = Some 75,
             notes = Some ''x'' \<rparr>)) ''apt_date''
       \<noteq> map_of (model_dump note_with_timezone) ''apt_date''"
proof -
  have s: "SessionNoteService \<in> set services" by (simp add: services_def)
  have c: "class_of note_with_timezone = model_class SessionNoteService"
    by (simp add: note_with_timezone_def SessionNoteService_def)
  have e: "tables example_db (table SessionNoteService) = [example_note_1, example_note_2]"
    by (simp add: example_db_def SessionNoteService_def)
  have i: "fst example_note_1 = 1" "fst example_note_2 = 2"
    by (simp_all add: example_note_1_def example_note_2_def)
  have cr: "create SessionNoteService note_with_timezone example_db =
     (success_result (PyInt 3),
      (sent (Insert (table SessionNoteService) (model_to_dict note_with_timezone)) example_db)
        \<lparr> tables := (tables example_db) (table SessionNoteService :=
             [example_note_1, example_note_2,
              (3, new_cells (model_to_dict note_with_timezone))]) \<rparr>)"
    using create_succeeds [OF s c, of example_db] by (simp add: e i next_rowid_def)
  have f: "filter (\<lambda>ir. fst ir = 3)
      (tables (snd (create SessionNoteService note_with_timezone example_db))
         (table SessionNoteService))
      = [(3, new_cells (model_to_dict note_with_timezone))]"
    by (simp add: cr i)
  have g: "fst (get_by_id SessionNoteService 3
             (snd (create SessionNoteService note_with_timezone example_db)))
       = success_result (PyModel (read_back 3 note_with_timezone))"
    by (rule get_by_id_found [OF f validate_inserted [OF s c]])
  have r: "success (fst (create SessionNoteService note_with_timezone example_db))
      \<and> data (fst (create SessionNoteService note_with_timezone example_db)) = PyInt 3"
    by (simp add: cr success_result_def Result_init_def)
  have b: "read_back 3 note_with_timezone = SessionNoteM
           \<lparr> SessionNote.id = Some 3, bcba = 1, patient = 1, clinic = None,
             apt_date = DateTime 2025 2 1 14 30 0 0 None, duration = Some 75,
             notes = Some ''x'' \<rparr>"
    by (simp add: note_with_timezone_def)
  have d: "map_of (model_dump (read_back 3 note_with_timezone)) ''apt_date''
       \<noteq> map_of (model_dump note_with_timezone) ''apt_date''"
    by (simp add: note_with_timezone_def)
  from r g d show ?thesis unfolding b by simp
qed

text \<open>
  C3, amended: when \<^verbatim>\<open>create\<close> on a service's repository returns
  Success(new\_id), \<^verbatim>\<open>get_by_id(new_id)\<close> returns Success of the record with
  that id whose other fields are the input's as the columns store them: equal to the
  input, except that a datetime comes back naive, with the same wall-clock fields and
  no \<^verbatim>\<open>tzinfo\<close>. A record without an aware datetime comes back equal in
  every field except id.
\<close>

theorem C3_create_then_get_by_id:
  assumes "repo \<in> set services" and "class_of m = model_class repo"
    and "create repo m db = (r, db')" and "success r"
  shows "\<exists>new_id. r = success_result (PyInt new_id)
     \<and> fst (get_by_id repo new_id db') = success_result (PyModel (read_back new_id m))
     \<and> map_of (model_dump (read_back new_id m)) ''id'' = Some (PyInt new_id)
     \<and> (\<forall>k. k \<noteq> ''id'' \<longrightarrow>
           map_of (model_dump (read_back new_id m)) k
             = map_option stored (map_of (model_dump m) k))
     \<and> (list_all (\<lambda>kv. stored (snd kv) = snd kv) (model_dump m) \<longrightarrow>
          (\<forall>k. k \<noteq> ''id'' \<longrightarrow>
             map_of (model_dump (read_back new_id m)) k = map_of (model_dump m) k))"
proof -
  let ?n = "next_rowid (tables db (table repo))"
  from create_succeeds [OF assms(1,2), of db] assms(3)
  have r: "r = success_result (PyInt ?n)"
    and db': "tables db' (table repo) =
        tables db (table repo) @ [(?n, new_cells (model_to_dict m))]"
    by (auto simp: sent_def)
  have "\<forall>ir \<in> set (tables db (table repo)). fst ir \<noteq> ?n"
    using next_rowid_gt [of _ "tables db (table repo)"] by fastforce
  then have "filter (\<lambda>ir. fst ir = ?n) (tables db' (table repo))
      = [(?n, new_cells (model_to_dict m))]"
    by (simp add: db' filter_empty_conv)
  from get_by_id_found [OF this validate_inserted [OF assms(1,2)]]
  have g: "fst (get_by_id repo ?n db') = success_result (PyModel (read_back ?n m))" .
  show ?thesis
    using r g read_back_id [of ?n m] read_back_fields [of _ ?n m]
      map_option_fixed [of stored "model_dump m"]
    by (intro exI [of _ ?n]) simp
qed

theorem C3_round_trip_witness:
  "SessionNoteService \<in> set services
   \<and> class_of note_without_timezone = model_class SessionNoteService
   \<and> success (fst (create SessionNoteService note_without_timezone example_db))
   \<and> fst (create SessionNoteService note_without_timezone example_db) = success_result (PyInt 3)
   \<and> fst (get_by_id SessionNoteService 3
             (snd (create SessionNoteService note_without_timezone example_db)))
       = success_result (PyModel (read_back 3 note_without_timezone))
   \<and> list_all (\<lambda>kv. stored (snd kv) = snd kv) (model_dump note_without_timezone)
   \<and> map_of (model_dump (read_back 3 note_without_timezone)) ''apt_date''
       = map_of (model_dump note_without_timezone) ''apt_date''"
proof -
  have s: "SessionNoteService \<in> set services" by (simp add: services_def)
  have c: "class_of note_without_timezone = model_class SessionNoteService"
    by (simp add: note_without_timezone_def SessionNoteService_def)
  have l: "list_all (\<lambda>kv. stored (snd kv) = snd kv) (model_dump note_without_timezone)"
    by (simp add: note_without_timezone_def opt_def)
  have a: "(''apt_date'' :: string) \<noteq> ''id''" by simp
  have n: "next_rowid (tables example_db (table SessionNoteService)) = 3"
    by (simp add: example_db_def example_note_1_def example_note_2_def
        SessionNoteService_def next_rowid_def)
  have r: "fst (create SessionNoteService note_without_timezone example_db)
      = success_result (PyInt 3)"
    by (simp add: create_succeeds [OF s c] n)
  have ok: "success (fst (create SessionNoteService note_without_timezone example_db))"
    by (simp add: r success_result_def Result_init_def)
  from C3_create_then_get_by_id [OF s c _ ok,
      of example_db "snd (create SessionNoteService note_without_timezone example_db)"]
  obtain new_id where
    "fst (create SessionNoteService note_without_timezone example_db)
       = success_result (PyInt new_id)"
    "fst (get_by_id SessionNoteService new_id
             (snd (create SessionNoteService note_without_timezone example_db)))
       = success_result (PyModel (read_back new_id note_without_timezone))"
    "map_of (model_dump (read_back new_id note_without_timezone)) ''apt_date''
       = map_of (model_dump note_without_timezone) ''apt_date''"
    using l a by auto
  with r s c ok l show ?thesis by (simp add: success_result_def Result_init_def)
qed

subsection \<open>Update is a sparse patch\<close>





section \<open>Properties of the session-note service\<close>

subsection \<open>Validated creation\<close>

lemma create_with_validation_unfold:
  "create_with_validation b p n c a d now db =
     (if \<not> success (fst (get_by_id BcbaService b db))
      then (error_result (''BCBA with ID '' @ str_int b @ '' does not exist'') (Some 400),
            sent (Select bcbas (WhereEq ''id'' b)) db)
      else if \<not> success (fst (get_by_id PatientService p db))
      then (error_result (''Patient with ID '' @ str_int p @ '' does not exist'') (Some 400),
            sent (Select patients (WhereEq ''id'' p)) (sent (Select bcbas (WhereEq ''id'' b)) db))
      else
        (case c of
           None \<Rightarrow>
             create SessionNoteService
               (SessionNoteM
                  \<lparr> SessionNote.id = None, bcba = b, patient = p, clinic = None,
                    apt_date = (case a of None \<Rightarrow> now | Some t \<Rightarrow> t),
                    duration = d, notes = n \<rparr>)
               (sent (Select patients (WhereEq ''id'' p))
                  (sent (Select bcbas (WhereEq ''id'' b)) db))
         | Some cid \<Rightarrow>
             if \<not> success (fst (get_by_id ClinicService cid db))
             then (error_result (''Clinic with ID '' @ str_int cid @ '' does not exist'')
                     (Some 400),
                   sent (Select clinics (WhereEq ''id'' cid))
                     (sent (Select patients (WhereEq ''id'' p))
                        (sent (Select bcbas (WhereEq ''id'' b)) db)))
             else
               create SessionNoteService
                 (SessionNoteM
                    \<lparr> SessionNote.id = None, bcba = b, patient = p, clinic = Some cid,
                      apt_date = (case a of None \<Rightarrow> now | Some t \<Rightarrow> t),
                      duration = d, notes = n \<rparr>)
                 (sent (Select clinics (WhereEq ''id'' cid))
                    (sent (Select patients (WhereEq ''id'' p))
                       (sent (Select bcbas (WhereEq ''id'' b)) db)))))"
proof -
  have t: "table BcbaService = bcbas" "table PatientService = patients"
    "table ClinicService = clinics"
    by (simp_all add: BcbaService_def PatientService_def ClinicService_def)
  show ?thesis
    unfolding create_with_validation_def
    by (simp add: case_prod_beta snd_get_by_id fst_get_by_id_sent t split: option.splits)
qed

lemma get_by_id_absent_fails:
  "rid \<notin> set (rowids db (table repo)) \<Longrightarrow> \<not> success (fst (get_by_id repo rid db))"
  by (simp add: get_by_id_absent success_error_result)

text \<open>
  C1: the BCBA is looked up first; when it is absent the result is the Failure with
  status 400 and the BCBA message, whatever the patient and clinic ids are, and the
  BCBA lookup is the only statement sent. When the BCBA check passes and the patient is
  absent, the result is the patient's message after exactly those two lookups; when
  both pass and a supplied clinic id is absent, the clinic's message after exactly the
  three lookups. With no clinic id the clinic is not looked up: the two lookups are
  followed by the insert; with a clinic id whose check passes, the three lookups are.
\<close>

theorem C1_validation_order_and_short_circuit:
  "(bcba_id \<notin> set (rowids db bcbas) \<longrightarrow>
      create_with_validation bcba_id patient_id n c a d now db =
        (error_result (''BCBA with ID '' @ str_int bcba_id @ '' does not exist'') (Some 400),
         sent (Select bcbas (WhereEq ''id'' bcba_id)) db))
   \<and> (success (fst (get_by_id BcbaService bcba_id db))
        \<and> patient_id \<notin> set (rowids db patients) \<longrightarrow>
      create_with_validation bcba_id patient_id n c a d now db =
        (error_result (''Patient with ID '' @ str_int patient_id @ '' does not exist'')
           (Some 400),
         sent (Select patients (WhereEq ''id'' patient_id))
           (sent (Select bcbas (WhereEq ''id'' bcba_id)) db)))
   \<and> (success (fst (get_by_id BcbaService bcba_id db))
        \<and> success (fst (get_by_id PatientService patient_id db))
        \<and> clinic_id \<notin> set (rowids db clinics) \<longrightarrow>
      create_with_validation bcba_id patient_id n (Some clinic_id) a d now db =
        (error_result (''Clinic with ID '' @ str_int clinic_id @ '' does not exist'')
           (Some 400),
         sent (Select clinics (WhereEq ''id'' clinic_id))
           (sent (Select patients (WhereEq ''id'' patient_id))
              (sent (Select bcbas (WhereEq ''id'' bcba_id)) db))))
   \<and> (success (fst (get_by_id BcbaService bcba_id db))
        \<and> success (fst (get_by_id PatientService patient_id db)) \<longrightarrow>
      executed (snd (create_with_validation bcba_id patient_id n None a d now db)) =
        executed db
        @ [Select bcbas (WhereEq ''id'' bcba_id), Select patients (WhereEq ''id'' patient_id),
           Insert session_notes
             (model_to_dict (SessionNoteM
                \<lparr> SessionNote.id = None, bcba = bcba_id, patient = patient_id,
                  clinic = None, apt_date = (case a of None \<Rightarrow> now | Some t \<Rightarrow> t),
                  duration = d, notes = n \<rparr>))])
   \<and> (success (fst (get_by_id BcbaService bcba_id db))
        \<and> success (fst (get_by_id PatientService patient_id db))
        \<and> success (fst (get_by_id ClinicService clinic_id db)) \<longrightarrow>
      executed (snd (create_with_validation bcba_id patient_id n (Some clinic_id) a d now
                       db)) =
        executed db
        @ [Select bcbas (WhereEq ''id'' bcba_id), Select patients (WhereEq ''id'' patient_id),
           Select clinics (WhereEq ''id'' clinic_id),
           Insert session_notes
             (model_to_dict (SessionNoteM
                \<lparr> SessionNote.id = None, bcba = bcba_id, patient = patient_id,
                  clinic = Some clinic_id,
                  apt_date = (case a of None \<Rightarrow> now | Some t \<Rightarrow> t),
                  duration = d, notes = n \<rparr>))])
   \<and> status_code
        (error_result (''BCBA with ID '' @ str_int bcba_id @ '' does not exist'') (Some 400))
       = 400
   \<and> status_code
        (error_result (''Patient with ID '' @ str_int patient_id @ '' does not exist'')
           (Some 400)) = 400
   \<and> status_code
        (error_result (''Clinic with ID '' @ str_int clinic_id @ '' does not exist'')
           (Some 400)) = 400"
proof -
  have t: "table BcbaService = bcbas" "table PatientService = patients"
    "table ClinicService = clinics" "table SessionNoteService = session_notes"
    by (simp_all add: BcbaService_def PatientService_def ClinicService_def
        SessionNoteService_def)
  have b: "bcba_id \<notin> set (rowids db bcbas)
      \<longrightarrow> \<not> success (fst (get_by_id BcbaService bcba_id db))"
    using get_by_id_absent_fails [of bcba_id db BcbaService] by (simp add: t)
  have p: "patient_id \<notin> set (rowids db patients)
      \<longrightarrow> \<not> success (fst (get_by_id PatientService patient_id db))"
    using get_by_id_absent_fails [of patient_id db PatientService] by (simp add: t)
  have k: "clinic_id \<notin> set (rowids db clinics)
      \<longrightarrow> \<not> success (fst (get_by_id ClinicService clinic_id db))"
    using get_by_id_absent_fails [of clinic_id db ClinicService] by (simp add: t)
  have e: "executed (snd (create SessionNoteService m db0)) =
      executed db0 @ [Insert session_notes (model_to_dict m)]" for m db0
    by (simp add: create_def execute_insert_def Let_def sent_def t)
  show ?thesis
    using b p k
    by (simp add: create_with_validation_unfold status_code_error_result e sent_def)
qed

theorem C1_validation_order_witness:
  "999 \<notin> set (rowids example_db bcbas)
   \<and> create_with_validation 999 999 (Some ''x'') (Some 999) None None noon example_db
       = (error_result ''BCBA with ID 999 does not exist'' (Some 400),
          sent (Select bcbas (WhereEq ''id'' 999)) example_db)
   \<and> success (fst (get_by_id BcbaService 1 example_db))
   \<and> 999 \<notin> set (rowids example_db patients)
   \<and> fst (create_with_validation 1 999 (Some ''x'') (Some 999) None None noon example_db)
       = error_result ''Patient with ID 999 does not exist'' (Some 400)
   \<and> success (fst (get_by_id PatientService 1 example_db))
   \<and> 999 \<notin> set (rowids example_db clinics)
   \<and> fst (create_with_validation 1 1 (Some ''x'') (Some 999) None None noon example_db)
       = error_result ''Clinic with ID 999 does not exist'' (Some 400)
   \<and> executed (snd (create_with_validation 1 1 (Some ''x'') None None None noon example_db))
       = [Select bcbas (WhereEq ''id'' 1), Select patients (WhereEq ''id'' 1),
          Insert session_notes
            [(''bcba'', PyInt 1), (''patient'', PyInt 1), (''apt_date'', PyDateTime noon),
             (''notes'', PyStr ''x'')]]
   \<and> success (fst (get_by_id ClinicService 1 example_db))
   \<and> executed (snd (create_with_validation 1 1 (Some ''x'') (Some 1) None None noon
                      example_db))
       = [Select bcbas (WhereEq ''id'' 1), Select patients (WhereEq ''id'' 1),
          Select clinics (WhereEq ''id'' 1),
          Insert session_notes
            [(''bcba'', PyInt 1), (''patient'', PyInt 1), (''clinic'', PyInt 1),
             (''apt_date'', PyDateTime noon), (''notes'', PyStr ''x'')]]"
proof -
  have b: "999 \<notin> set (rowids example_db bcbas)" "999 \<notin> set (rowids example_db patients)"
    "999 \<notin> set (rowids example_db clinics)"
    by (simp_all add: rowids_def example_db_def)
  have ok: "success (fst (get_by_id BcbaService 1 example_db))"
    "success (fst (get_by_id PatientService 1 example_db))"
    "success (fst (get_by_id ClinicService 1 example_db))"
    by code_simp+
  have s: "str_int 999 = ''999''" by code_simp
  have e: "executed example_db = []" by (simp add: example_db_def)
  have m: "model_to_dict (SessionNoteM
                \<lparr> SessionNote.id = None, bcba = 1, patient = 1,
                  clinic = None, apt_date = noon, duration = None, notes = Some ''x'' \<rparr>)
      = [(''bcba'', PyInt 1), (''patient'', PyInt 1), (''apt_date'', PyDateTime noon),
             (''notes'', PyStr ''x'')]"
    by (simp add: model_to_dict_def opt_def)
  from C1_validation_order_and_short_circuit [of 999 example_db 999 "Some ''x''" "Some 999"
      None None noon 999] b
  have 1: "create_with_validation 999 999 (Some ''x'') (Some 999) None None noon example_db
       = (error_result ''BCBA with ID 999 does not exist'' (Some 400),
          sent (Select bcbas (WhereEq ''id'' 999)) example_db)"
    by (simp add: s)
  from C1_validation_order_and_short_circuit [of 1 example_db 999 "Some ''x''" "Some 999"
      None None noon 999] b ok
  have 2: "fst (create_with_validation 1 999 (Some ''x'') (Some 999) None None noon example_db)
       = error_result ''Patient with ID 999 does not exist'' (Some 400)"
    by (simp add: s)
  from C1_validation_order_and_short_circuit [of 1 example_db 1 "Some ''x''" "Some 999"
      None None noon 999] b ok
  have 3: "fst (create_with_validation 1 1 (Some ''x'') (Some 999) None None noon example_db)
       = error_result ''Clinic with ID 999 does not exist'' (Some 400)"
    by (simp add: s)
  from C1_validation_order_and_short_circuit [of 1 example_db 1 "Some ''x''" None
      None None noon 999] ok
  have 4: "executed (snd (create_with_validation 1 1 (Some ''x'') None None None noon
           example_db))
       = [Select bcbas (WhereEq ''id'' 1), Select patients (WhereEq ''id'' 1),
          Insert session_notes
            [(''bcba'', PyInt 1), (''patient'', PyInt 1), (''apt_date'', PyDateTime noon),
             (''notes'', PyStr ''x'')]]"
    by (simp add: e m)
  have m': "model_to_dict (SessionNoteM
                \<lparr> SessionNote.id = None, bcba = 1, patient = 1,
                  clinic = Some 1, apt_date = noon, duration = None, notes = Some ''x'' \<rparr>)
      = [(''bcba'', PyInt 1), (''patient'', PyInt 1), (''clinic'', PyInt 1),
         (''apt_date'', PyDateTime noon), (''notes'', PyStr ''x'')]"
    by (simp add: model_to_dict_def opt_def)
  from C1_validation_order_and_short_circuit [of 1 example_db 1 "Some ''x''" None
      None None noon 1] ok
  have 5: "executed (snd (create_with_validation 1 1 (Some ''x'') (Some 1) None None noon
           example_db))
       = [Select bcbas (WhereEq ''id'' 1), Select patients (WhereEq ''id'' 1),
          Select clinics (WhereEq ''id'' 1),
          Insert session_notes
            [(''bcba'', PyInt 1), (''patient'', PyInt 1), (''clinic'', PyInt 1),
             (''apt_date'', PyDateTime noon), (''notes'', PyStr ''x'')]]"
    by (simp add: e m')
  from b ok 1 2 3 4 5 show ?thesis by simp
qed

subsection \<open>The detailed reads\<close>

lemma col_append_left: "k \<in> fst ` set xs \<Longrightarrow> col (xs @ ys) k = col xs k"
proof -
  assume "k \<in> fst ` set xs"
  then obtain v where "map_of xs k = Some v"
    by (cases "map_of xs k") (auto simp: map_of_eq_None_iff)
  then show ?thesis by (simp add: col_def map_add_def)
qed

lemma col_append_right: "k \<notin> fst ` set xs \<Longrightarrow> col (xs @ ys) k = col ys k"
proof -
  assume "k \<notin> fst ` set xs"
  then have "map_of xs k = None" by (simp add: map_of_eq_None_iff)
  then show ?thesis by (simp add: col_def map_add_def)
qed

lemma keys_note_row:
  "fst ` set (row_mapping session_notes ir) =
     {''id'', ''bcba'', ''patient'', ''clinic'', ''apt_date'', ''duration'', ''notes''}"
  by (auto simp: row_mapping_def)

lemma col_note_row:
  "col (row_mapping session_notes ir) ''bcba'' = snd ir ''bcba''"
  "col (row_mapping session_notes ir) ''clinic'' = snd ir ''clinic''"
  "col (row_mapping session_notes ir) ''patient'' = snd ir ''patient''"
  "col (row_mapping session_notes ir) ''apt_date'' = snd ir ''apt_date''"
  by (simp_all add: row_mapping_def col_def)

lemma joined_rowsD:
  assumes "jr \<in> set (joined_rows db)"
  shows "\<exists>ir \<in> set (tables db session_notes). \<exists>pf pl cn bn.
           jr = row_mapping session_notes ir
                @ [(''patient_first_name'', pf), (''patient_last_name'', pl),
                   (''clinic_name'', cn), (''bcba_name'', bn)]
           \<and> cn \<in> set (clinic_names db (row_mapping session_notes ir))"
  using assms by (auto simp: joined_rows_def select_rows_def)

lemma clinic_names_null:
  "col n ''clinic'' = PyNone \<Longrightarrow> clinic_names db n = [PyNone]"
  by (simp add: clinic_names_def sql_eq_def)

lemma joined_row_cols:
  assumes "jr \<in> set (joined_rows db)"
  shows "\<exists>ir \<in> set (tables db session_notes).
           col jr ''id'' = PyInt (fst ir) \<and> col jr ''bcba'' = snd ir ''bcba''
           \<and> col jr ''clinic'' = snd ir ''clinic''
           \<and> (snd ir ''clinic'' = PyNone \<longrightarrow> col jr ''clinic_name'' = PyNone)"
proof -
  from joined_rowsD [OF assms] obtain ir pf pl cn bn where
    ir: "ir \<in> set (tables db session_notes)"
    and jr: "jr = row_mapping session_notes ir
                @ [(''patient_first_name'', pf), (''patient_last_name'', pl),
                   (''clinic_name'', cn), (''bcba_name'', bn)]"
    and cn: "cn \<in> set (clinic_names db (row_mapping session_notes ir))"
    by blast
  have a: "col jr ''id'' = PyInt (fst ir)" "col jr ''bcba'' = snd ir ''bcba''"
    "col jr ''clinic'' = snd ir ''clinic''"
    unfolding jr by (simp_all add: col_append_left keys_note_row col_note_row col_row_mapping_id)
  have b: "col jr ''clinic_name'' = cn"
    unfolding jr by (simp add: col_append_right keys_note_row) (simp add: col_def)
  have "snd ir ''clinic'' = PyNone \<longrightarrow> cn = PyNone"
    using cn clinic_names_null [of "row_mapping session_notes ir" db]
    by (auto simp: col_note_row)
  with a b ir show ?thesis by blast
qed

lemma note_with_details_clinic:
  assumes "note_with_details r = Inr d"
  shows "map_of d ''clinic'' = Some (col r ''clinic'')
       \<and> map_of d ''clinic_name'' =
           Some (if truthy (col r ''clinic_name'') then col r ''clinic_name''
                 else PyStr ''No Clinic'')"
  using assms by (auto simp: note_with_details_def split: sum.splits)

lemma truthy_not_none: "truthy v \<Longrightarrow> v \<noteq> PyNone"
  by auto

lemma joined_row_details:
  assumes "jr \<in> set (joined_rows db)" and "note_with_details jr = Inr d"
  shows "(\<exists>v. map_of d ''clinic_name'' = Some v \<and> v \<noteq> PyNone)
       \<and> (map_of d ''clinic'' = Some PyNone \<longrightarrow>
            map_of d ''clinic_name'' = Some (PyStr ''No Clinic''))"
proof -
  from joined_row_cols [OF assms(1)] obtain ir :: "int \<times> row" where
    c: "col jr ''clinic'' = snd ir ''clinic''"
    and n: "snd ir ''clinic'' = PyNone \<longrightarrow> col jr ''clinic_name'' = PyNone"
    by blast
  from note_with_details_clinic [OF assms(2)] c n show ?thesis
    by (auto dest: truthy_not_none)
qed

lemma notes_with_details_all:
  "notes_with_details rs = Inr ds \<Longrightarrow>
   \<forall>d \<in> set ds. \<exists>r \<in> set rs. note_with_details r = Inr d"
  by (induction rs arbitrary: ds) (auto split: sum.splits)

lemma details_clinic_name:
  "(fst (get_by_id_with_details note_id db) = success_result (PyDict d) \<longrightarrow>
      (\<exists>v. map_of d ''clinic_name'' = Some v \<and> v \<noteq> PyNone)
      \<and> (map_of d ''clinic'' = Some PyNone \<longrightarrow>
           map_of d ''clinic_name'' = Some (PyStr ''No Clinic'')))
   \<and> (fst (get_by_bcba_with_details bcba_id db) = success_result (PyList xs) \<longrightarrow>
      (\<forall>x \<in> set xs. \<exists>d. x = PyDict d
         \<and> (\<exists>v. map_of d ''clinic_name'' = Some v \<and> v \<noteq> PyNone)
         \<and> (map_of d ''clinic'' = Some PyNone \<longrightarrow>
              map_of d ''clinic_name'' = Some (PyStr ''No Clinic''))))"
proof (intro conjI impI)
  assume a: "fst (get_by_id_with_details note_id db) = success_result (PyDict d)"
  then obtain jr rest where f: "filter (holds (WhereEq ''id'' note_id)) (joined_rows db) = jr # rest"
    and nd: "note_with_details jr = Inr d"
    by (auto simp: get_by_id_with_details_def execute_select_details_def fetchone_def
        success_result_def error_result_def Result_init_def
        split: list.splits sum.splits)
  have "jr \<in> set (filter (holds (WhereEq ''id'' note_id)) (joined_rows db))"
    by (simp add: f)
  then have jr: "jr \<in> set (joined_rows db)" by simp
  from joined_row_details [OF jr nd]
  show "\<exists>v. map_of d ''clinic_name'' = Some v \<and> v \<noteq> PyNone"
    and "map_of d ''clinic'' = Some PyNone \<Longrightarrow>
         map_of d ''clinic_name'' = Some (PyStr ''No Clinic'')"
    by auto
next
  assume a: "fst (get_by_bcba_with_details bcba_id db) = success_result (PyList xs)"
  then obtain ds where ds: "notes_with_details
        (filter (holds (WhereEq ''bcba'' bcba_id)) (joined_rows db)) = Inr ds"
    and xs: "xs = map PyDict ds"
    by (auto simp: get_by_bcba_with_details_def execute_select_details_def
        success_result_def error_result_def Result_init_def
        split: sum.splits)
  show "\<forall>x \<in> set xs. \<exists>d. x = PyDict d
         \<and> (\<exists>v. map_of d ''clinic_name'' = Some v \<and> v \<noteq> PyNone)
         \<and> (map_of d ''clinic'' = Some PyNone \<longrightarrow>
              map_of d ''clinic_name'' = Some (PyStr ''No Clinic''))"
  proof
    fix x assume "x \<in> set xs"
    with xs obtain d where x: "x = PyDict d" and d: "d \<in> set ds" by auto
    from notes_with_details_all [OF ds] d obtain jr where
      "jr \<in> set (joined_rows db)" "note_with_details jr = Inr d"
      by auto
    from joined_row_details [OF this] x
    show "\<exists>d. x = PyDict d
         \<and> (\<exists>v. map_of d ''clinic_name'' = Some v \<and> v \<noteq> PyNone)
         \<and> (map_of d ''clinic'' = Some PyNone \<longrightarrow>
              map_of d ''clinic_name'' = Some (PyStr ''No Clinic''))"
      by blast
  qed
qed

subsection \<open>Reads by a BCBA without notes\<close>



subsection \<open>A note without a clinic\<close>

lemma set_joined_rows:
  "set (joined_rows db) =
     {n @ [(''patient_first_name'', col p ''first_name''),
           (''patient_last_name'', col p ''last_name''),
           (''clinic_name'', cn),
           (''bcba_name'', col b ''name'')] | n p cn b.
        n \<in> set (select_rows db session_notes Everything)
        \<and> p \<in> set (select_rows db patients Everything)
        \<and> sql_eq (col n ''patient'') (col p ''id'')
        \<and> cn \<in> set (clinic_names db n)
        \<and> b \<in> set (select_rows db bcbas Everything)
        \<and> sql_eq (col n ''bcba'') (col b ''id'')}"
  unfolding joined_rows_def by auto

lemma joined_rows_member:
  assumes "n \<in> set (select_rows db session_notes Everything)"
    and "p \<in> set (select_rows db patients Everything)"
    and "sql_eq (col n ''patient'') (col p ''id'')"
    and "cn \<in> set (clinic_names db n)"
    and "b \<in> set (select_rows db bcbas Everything)"
    and "sql_eq (col n ''bcba'') (col b ''id'')"
  shows "n @ [(''patient_first_name'', col p ''first_name''),
              (''patient_last_name'', col p ''last_name''),
              (''clinic_name'', cn),
              (''bcba_name'', col b ''name'')] \<in> set (joined_rows db)"
  unfolding set_joined_rows using assms by blast

lemma joined_rowsI:
  assumes "ir \<in> set (tables db session_notes)" and "references_resolve db (snd ir)"
    and "snd ir ''clinic'' = PyNone"
  shows "\<exists>pf pl bn.
           row_mapping session_notes ir
             @ [(''patient_first_name'', pf), (''patient_last_name'', pl),
                (''clinic_name'', PyNone), (''bcba_name'', bn)] \<in> set (joined_rows db)"
proof -
  from assms(2) obtain p b where p: "p \<in> set (tables db patients)"
    "snd ir ''patient'' = PyInt (fst p)"
    and b: "b \<in> set (tables db bcbas)" "snd ir ''bcba'' = PyInt (fst b)"
    by (auto simp: references_resolve_def list_ex_iff)
  have c: "clinic_names db (row_mapping session_notes ir) = [PyNone]"
    by (simp add: clinic_names_null col_note_row assms(3))
  have "row_mapping session_notes ir
      @ [(''patient_first_name'', col (row_mapping patients p) ''first_name''),
         (''patient_last_name'', col (row_mapping patients p) ''last_name''),
         (''clinic_name'', PyNone),
         (''bcba_name'', col (row_mapping bcbas b) ''name'')] \<in> set (joined_rows db)"
  proof (rule joined_rows_member)
    show "row_mapping session_notes ir \<in> set (select_rows db session_notes Everything)"
      using assms(1) by (simp add: select_rows_def)
    show "row_mapping patients p \<in> set (select_rows db patients Everything)"
      using p(1) by (simp add: select_rows_def)
    show "row_mapping bcbas b \<in> set (select_rows db bcbas Everything)"
      using b(1) by (simp add: select_rows_def)
    show "sql_eq (col (row_mapping session_notes ir) ''patient'')
            (col (row_mapping patients p) ''id'')"
      by (simp add: col_note_row col_row_mapping_id sql_eq_def p(2))
    show "sql_eq (col (row_mapping session_notes ir) ''bcba'')
            (col (row_mapping bcbas b) ''id'')"
      by (simp add: col_note_row col_row_mapping_id sql_eq_def b(2))
    show "PyNone \<in> set (clinic_names db (row_mapping session_notes ir))"
      by (simp add: c)
  qed
  then show ?thesis by blast
qed

lemma same_rowid_same_row:
  "distinct (map fst xs) \<Longrightarrow> a \<in> set xs \<Longrightarrow> b \<in> set xs \<Longrightarrow> fst a = fst b \<Longrightarrow> a = b"
  by (metis eq_key_imp_eq_value prod.collapse)

lemma joined_row_apt_date:
  assumes "jr \<in> set (joined_rows db)"
  shows "\<exists>ir \<in> set (tables db session_notes).
           col jr ''id'' = PyInt (fst ir) \<and> col jr ''apt_date'' = snd ir ''apt_date''"
proof -
  from joined_rowsD [OF assms] obtain ir :: "int \<times> row" and pf pl cn bn where
    ir: "ir \<in> set (tables db session_notes)"
    and jr: "jr = row_mapping session_notes ir
                @ [(''patient_first_name'', pf), (''patient_last_name'', pl),
                   (''clinic_name'', cn), (''bcba_name'', bn)]"
    by blast
  have "col jr ''id'' = PyInt (fst ir)" "col jr ''apt_date'' = snd ir ''apt_date''"
    unfolding jr
    by (simp_all add: col_append_left keys_note_row col_note_row col_row_mapping_id)
  with ir show ?thesis by blast
qed

lemma note_with_details_ok:
  "col jr ''apt_date'' = PyDateTime t \<Longrightarrow> \<exists>d. note_with_details jr = Inr d"
  by (simp add: note_with_details_def)

lemma note_with_details_id:
  "note_with_details jr = Inr d \<Longrightarrow> map_of d ''id'' = Some (col jr ''id'')"
  by (auto simp: note_with_details_def split: sum.splits)

lemma has_apt_dateD: "has_apt_date r \<Longrightarrow> \<exists>t. r ''apt_date'' = PyDateTime t"
  by (auto simp: has_apt_date_def split: pyval.splits)

lemma null_clinic_note_reported_by_id:
  assumes "distinct (rowids db session_notes)"
    and "ir \<in> set (tables db session_notes)"
    and "snd ir ''clinic'' = PyNone"
    and "references_resolve db (snd ir)"
    and "has_apt_date (snd ir)"
  shows "\<exists>d. fst (get_by_id_with_details (fst ir) db) = success_result (PyDict d)
           \<and> map_of d ''id'' = Some (PyInt (fst ir))
           \<and> map_of d ''clinic_name'' = Some (PyStr ''No Clinic'')"
proof -
  from joined_rowsI [OF assms(2,4,3)] obtain jr0 where
    jr0: "jr0 \<in> set (joined_rows db)" "col jr0 ''id'' = PyInt (fst ir)"
    by (auto simp: col_append_left keys_note_row col_row_mapping_id)
  then have "jr0 \<in> set (filter (holds (WhereEq ''id'' (fst ir))) (joined_rows db))"
    by (simp add: sql_eq_def)
  then obtain jr rest where
    f: "filter (holds (WhereEq ''id'' (fst ir))) (joined_rows db) = jr # rest"
    by (cases "filter (holds (WhereEq ''id'' (fst ir))) (joined_rows db)") auto
  then have "jr \<in> set (filter (holds (WhereEq ''id'' (fst ir))) (joined_rows db))"
    by simp
  then have jr: "jr \<in> set (joined_rows db)" and h: "col jr ''id'' = PyInt (fst ir)"
    by (auto simp: sql_eq_def)
  from joined_row_cols [OF jr] obtain ir1 :: "int \<times> row" where
    ir1: "ir1 \<in> set (tables db session_notes)" "col jr ''id'' = PyInt (fst ir1)"
      "col jr ''clinic'' = snd ir1 ''clinic''"
      "snd ir1 ''clinic'' = PyNone \<longrightarrow> col jr ''clinic_name'' = PyNone"
    by blast
  from joined_row_apt_date [OF jr] obtain ir2 :: "int \<times> row" where
    ir2: "ir2 \<in> set (tables db session_notes)" "col jr ''id'' = PyInt (fst ir2)"
      "col jr ''apt_date'' = snd ir2 ''apt_date''"
    by blast
  from assms(1) have dist: "distinct (map fst (tables db session_notes))"
    by (simp add: rowids_def)
  have e1: "ir1 = ir"
    using same_rowid_same_row [OF dist ir1(1) assms(2)] ir1(2) h by simp
  have e2: "ir2 = ir"
    using same_rowid_same_row [OF dist ir2(1) assms(2)] ir2(2) h by simp
  from has_apt_dateD [OF assms(5)] obtain t where t: "snd ir ''apt_date'' = PyDateTime t" ..
  with ir2(3) e2 have "col jr ''apt_date'' = PyDateTime t" by simp
  from note_with_details_ok [OF this] obtain d where d: "note_with_details jr = Inr d" ..
  have cn: "col jr ''clinic_name'' = PyNone" using ir1(4) e1 assms(3) by simp
  have "fst (get_by_id_with_details (fst ir) db) = success_result (PyDict d)"
    by (simp add: get_by_id_with_details_def execute_select_details_def f fetchone_def d)
  moreover have "map_of d ''id'' = Some (PyInt (fst ir))"
    using note_with_details_id [OF d] h by simp
  moreover have "map_of d ''clinic_name'' = Some (PyStr ''No Clinic'')"
    using note_with_details_clinic [OF d] cn by simp
  ultimately show ?thesis by blast
qed

lemma notes_with_details_total:
  "\<forall>r \<in> set rs. \<exists>d. note_with_details r = Inr d \<Longrightarrow>
   \<exists>ds. notes_with_details rs = Inr ds
        \<and> (\<forall>r \<in> set rs. \<exists>d \<in> set ds. note_with_details r = Inr d)"
proof (induction rs)
  case Nil
  then show ?case by simp
next
  case (Cons r rs)
  then obtain d ds where d: "note_with_details r = Inr d"
    and ds: "notes_with_details rs = Inr ds"
      "\<forall>r \<in> set rs. \<exists>d \<in> set ds. note_with_details r = Inr d"
    by auto
  then show ?case by auto
qed

lemma null_clinic_note_reported_by_bcba:
  assumes "ir \<in> set (tables db session_notes)"
    and "snd ir ''clinic'' = PyNone"
    and "snd ir ''bcba'' = PyInt bcba_id"
    and "references_resolve db (snd ir)"
    and "list_all (\<lambda>x. has_apt_date (snd x)) (tables db session_notes)"
  shows "\<exists>ds. fst (get_by_bcba_with_details bcba_id db) = success_result (PyList (map PyDict ds))
           \<and> (\<exists>d \<in> set ds. map_of d ''id'' = Some (PyInt (fst ir))
                \<and> map_of d ''clinic_name'' = Some (PyStr ''No Clinic''))"
proof -
  let ?rs = "filter (holds (WhereEq ''bcba'' bcba_id)) (joined_rows db)"
  have "\<exists>d. note_with_details jr = Inr d" if "jr \<in> set (joined_rows db)" for jr
  proof -
    from joined_row_apt_date [OF that] obtain ir2 :: "int \<times> row" where
      "ir2 \<in> set (tables db session_notes)" "col jr ''apt_date'' = snd ir2 ''apt_date''"
      by blast
    with assms(5) has_apt_dateD [of "snd ir2"] obtain t where
      "col jr ''apt_date'' = PyDateTime t"
      by (auto simp: list_all_iff)
    then show ?thesis by (rule note_with_details_ok)
  qed
  then have "\<forall>r \<in> set ?rs. \<exists>d. note_with_details r = Inr d" by simp
  from notes_with_details_total [OF this] obtain ds where
    ds: "notes_with_details ?rs = Inr ds"
    and all: "\<forall>r \<in> set ?rs. \<exists>d \<in> set ds. note_with_details r = Inr d"
    by blast
  from joined_rowsI [OF assms(1,4,2)] obtain pf pl bn where
    jr: "row_mapping session_notes ir
             @ [(''patient_first_name'', pf), (''patient_last_name'', pl),
                (''clinic_name'', PyNone), (''bcba_name'', bn)] \<in> set (joined_rows db)"
    (is "?jr \<in> _")
    by blast
  have c: "col ?jr ''id'' = PyInt (fst ir)" "col ?jr ''bcba'' = PyInt bcba_id"
    by (simp_all add: col_append_left keys_note_row col_row_mapping_id col_note_row assms(3))
  have n: "col ?jr ''clinic_name'' = PyNone"
    by (simp add: col_append_right keys_note_row) (simp add: col_def)
  from jr c have "?jr \<in> set ?rs" by (simp add: sql_eq_def)
  with all obtain d where d: "d \<in> set ds" "note_with_details ?jr = Inr d" by blast
  have "fst (get_by_bcba_with_details bcba_id db) = success_result (PyList (map PyDict ds))"
    by (simp add: get_by_bcba_with_details_def execute_select_details_def ds)
  moreover have "map_of d ''id'' = Some (PyInt (fst ir))"
    using note_with_details_id [OF d(2)] c by simp
  moreover have "map_of d ''clinic_name'' = Some (PyStr ''No Clinic'')"
    using note_with_details_clinic [OF d(2)] n by simp
  ultimately show ?thesis using d(1) by blast
qed

text \<open>
  C9: in every dict that either detailed read returns, \<^verbatim>\<open>clinic_name\<close> is a
  key with a value that is not null, and when the note's clinic is null that value is
  \<^verbatim>\<open>'No Clinic'\<close>. A stored note with a null clinic is reported so: by the
  read by id when ids are unique, the note's patient and BCBA exist and it has its
  appointment time, and by the read by BCBA when the note is one of that BCBA's, its
  patient and BCBA exist and the stored notes have their appointment times.
\<close>

theorem C9_null_clinic_reads_no_clinic:
  "(fst (get_by_id_with_details note_id db) = success_result (PyDict d) \<longrightarrow>
      (\<exists>v. map_of d ''clinic_name'' = Some v \<and> v \<noteq> PyNone)
      \<and> (map_of d ''clinic'' = Some PyNone \<longrightarrow>
           map_of d ''clinic_name'' = Some (PyStr ''No Clinic'')))
   \<and> (fst (get_by_bcba_with_details bcba_id db) = success_result (PyList xs) \<longrightarrow>
      (\<forall>x \<in> set xs. \<exists>d. x = PyDict d
         \<and> (\<exists>v. map_of d ''clinic_name'' = Some v \<and> v \<noteq> PyNone)
         \<and> (map_of d ''clinic'' = Some PyNone \<longrightarrow>
              map_of d ''clinic_name'' = Some (PyStr ''No Clinic''))))
   \<and> (distinct (rowids db session_notes) \<and> ir \<in> set (tables db session_notes)
        \<and> snd ir ''clinic'' = PyNone \<and> references_resolve db (snd ir)
        \<and> has_apt_date (snd ir) \<longrightarrow>
      (\<exists>d. fst (get_by_id_with_details (fst ir) db) = success_result (PyDict d)
           \<and> map_of d ''id'' = Some (PyInt (fst ir))
           \<and> map_of d ''clinic_name'' = Some (PyStr ''No Clinic'')))
   \<and> (ir \<in> set (tables db session_notes) \<and> snd ir ''clinic'' = PyNone
        \<and> snd ir ''bcba'' = PyInt bcba_id \<and> references_resolve db (snd ir)
        \<and> list_all (\<lambda>x. has_apt_date (snd x)) (tables db session_notes) \<longrightarrow>
      (\<exists>ds. fst (get_by_bcba_with_details bcba_id db)
               = success_result (PyList (map PyDict ds))
           \<and> (\<exists>d \<in> set ds. map_of d ''id'' = Some (PyInt (fst ir))
                \<and> map_of d ''clinic_name'' = Some (PyStr ''No Clinic''))))"
  using details_clinic_name [of note_id db d bcba_id xs]
    null_clinic_note_reported_by_id [of db ir]
    null_clinic_note_reported_by_bcba [of ir db bcba_id]
  by blast

theorem C9_null_clinic_witness:
  "distinct (rowids example_db session_notes)
   \<and> example_note_1 \<in> set (tables example_db session_notes)
   \<and> fst example_note_1 = 1
   \<and> snd example_note_1 ''clinic'' = PyNone
   \<and> snd example_note_1 ''bcba'' = PyInt 1
   \<and> references_resolve example_db (snd example_note_1)
   \<and> has_apt_date (snd example_note_1)
   \<and> list_all (\<lambda>x. has_apt_date (snd x)) (tables example_db session_notes)
   \<and> fst (get_by_id_with_details 1 example_db) = success_result (PyDict note_1_details)
   \<and> fst (get_by_bcba_with_details 1 example_db)
       = success_result (PyList [PyDict note_1_details, PyDict note_2_details])
   \<and> map_of note_1_details ''clinic'' = Some PyNone
   \<and> map_of note_1_details ''clinic_name'' = Some (PyStr ''No Clinic'')"
proof -
  have a: "fst (get_by_id_with_details 1 example_db) = success_result (PyDict note_1_details)"
    by code_simp
  have b: "fst (get_by_bcba_with_details 1 example_db)
       = success_result (PyList [PyDict note_1_details, PyDict note_2_details])"
    by code_simp
  have c: "map_of note_1_details ''clinic'' = Some PyNone"
    by (simp add: note_1_details_def)
  have h: "distinct (rowids example_db session_notes)"
    "example_note_1 \<in> set (tables example_db session_notes)"
    "fst example_note_1 = 1"
    "snd example_note_1 ''clinic'' = PyNone"
    "snd example_note_1 ''bcba'' = PyInt 1"
    "references_resolve example_db (snd example_note_1)"
    "has_apt_date (snd example_note_1)"
    "list_all (\<lambda>x. has_apt_date (snd x)) (tables example_db session_notes)"
    by (simp_all add: rowids_def example_db_def example_note_1_def example_note_2_def
        new_cells_def references_resolve_def has_apt_date_def)
  from C9_null_clinic_reads_no_clinic [of 1 example_db note_1_details 1
      "[PyDict note_1_details, PyDict note_2_details]" example_note_1] a b c h
  show ?thesis by simp
qed

end
